theory Spec2Isabelle
  imports Complex_Main "HOL-Library.AList"
begin

section \<open>JavaScript values used by the core\<close>

text \<open>
  The JavaScript numbers that are fields of a command or counts of batches: an integer, or
  one of the special values a division by zero produces. The quantities the bulk
  provisioner computes with (\<open>count\<close>, \<open>batchSize\<close>, indices) may be fractional; they are
  rationals, see the section on the bulk provisioner.
\<close>

datatype jsnum = Num int | NaN | Infinity | NegInfinity

text \<open>Truthiness of a number: \<open>0\<close> and \<open>NaN\<close> are falsy.\<close>

fun truthy_num :: "jsnum \<Rightarrow> bool" where
  "truthy_num (Num n) = (n \<noteq> 0)"
| "truthy_num NaN = False"
| "truthy_num Infinity = True"
| "truthy_num NegInfinity = True"

text \<open>\<open>a || b\<close> where \<open>a\<close> is an optional number (\<open>undefined\<close> is \<open>None\<close>).\<close>

fun or_num :: "jsnum option \<Rightarrow> jsnum \<Rightarrow> jsnum" where
  "or_num None d = d"
| "or_num (Some a) d = (if truthy_num a then a else d)"

text \<open>\<open>a || b\<close> where \<open>a\<close> is an optional string: \<open>undefined\<close> and the empty string are falsy.\<close>

fun or_str :: "string option \<Rightarrow> string \<Rightarrow> string" where
  "or_str None d = d"
| "or_str (Some a) d = (if a \<noteq> [] then a else d)"

text \<open>
  The settlement of an awaited promise: it returns a value, throws an error with a
  message, or never settles.
\<close>

datatype 'a outcome = Returns 'a | Throws string | Pending

section \<open>Connection: the command/response protocol (tzafonwright/client.ts)\<close>

datatype ActionType = CLICK | TYPE | SCROLL | GOTO | SCREENSHOT | SET_VIEWPORT_SIZE

text \<open>
  The interface \<open>Command\<close>. Field names carry the prefix \<open>cmd_\<close>; an optional field
  that is \<open>undefined\<close> is \<open>None\<close>.
\<close>

record Command =
  cmd_action_type :: ActionType
  cmd_x :: "jsnum option"
  cmd_y :: "jsnum option"
  cmd_text :: "string option"
  cmd_delta_x :: "jsnum option"
  cmd_delta_y :: "jsnum option"
  cmd_url :: "string option"
  cmd_width :: "jsnum option"
  cmd_height :: "jsnum option"
  cmd_timeout :: "jsnum option"

text \<open>
  The object \<open>commandData\<close> that \<open>sendAction\<close> serialises into one frame: every optional
  field is present exactly when the command defines it, and \<open>timeout\<close> is always present.
\<close>

record CommandData =
  cd_action_type :: ActionType
  cd_x :: "jsnum option"
  cd_y :: "jsnum option"
  cd_text :: "string option"
  cd_delta_x :: "jsnum option"
  cd_delta_y :: "jsnum option"
  cd_url :: "string option"
  cd_width :: "jsnum option"
  cd_height :: "jsnum option"
  cd_timeout :: jsnum

definition commandData :: "Command \<Rightarrow> CommandData" where
  "commandData command =
     \<lparr> cd_action_type = cmd_action_type command,
       cd_x = cmd_x command,
       cd_y = cmd_y command,
       cd_text = cmd_text command,
       cd_delta_x = cmd_delta_x command,
       cd_delta_y = cmd_delta_y command,
       cd_url = cmd_url command,
       cd_width = cmd_width command,
       cd_height = cmd_height command,
       cd_timeout = or_num (cmd_timeout command) (Num 30000) \<rparr>"

text \<open>
  An inbound frame. \<open>Json r\<close> is a frame whose text parses to an object with the fields
  of \<open>r\<close>; \<open>Malformed\<close> is any frame on which the body of \<open>messageHandler\<close> throws
  (\<open>JSON.parse\<close> fails, or the parsed value has no properties).
\<close>

record Response =
  rsp_success :: "bool option"
  rsp_error_message :: "string option"
  rsp_image :: "string option"

datatype inbound = Json Response | Malformed string

text \<open>The bytes \<open>Buffer.from(s, "base64")\<close>, kept symbolic.\<close>

datatype buffer = Buffer_from_base64 string

record Result =
  res_success :: bool
  res_image :: "buffer option"
  res_error_message :: "string option"

datatype settlement = Resolved Result | Rejected string

text \<open>
  The body of \<open>messageHandler\<close>, as the settlement it gives the promise of its call.
  \<open>response.success || false\<close>; the image is decoded when it is a non-empty string.
\<close>

fun messageHandler :: "inbound \<Rightarrow> settlement" where
  "messageHandler (Json response) =
     Resolved \<lparr> res_success = (case rsp_success response of None \<Rightarrow> False | Some b \<Rightarrow> b),
                res_image = (case rsp_image response of
                               None \<Rightarrow> None
                             | Some s \<Rightarrow> if s \<noteq> [] then Some (Buffer_from_base64 s) else None),
                res_error_message = rsp_error_message response \<rparr>"
| "messageHandler (Malformed e) = Rejected (''Failed to parse response: '' @ e)"

text \<open>
  The class \<open>TzafonWrightClient\<close> together with the transport object it owns.
  \<open>ws\<close> is \<open>True\<close> when the field \<open>ws\<close> is not \<open>null\<close>. The remaining fields are the state
  of the transport: the \<open>message\<close> listeners now attached, in the order of attachment and
  each named by the call whose promise it settles; the frames sent so far; and whether
  \<open>ws.close()\<close> throws (with which message).
\<close>

record TzafonWrightClient =
  ws :: bool
  isConnected :: bool
  wsUrl :: string
  listeners :: "nat list"
  sent :: "CommandData list"
  ws_close_error :: "string option"

text \<open>\<open>new TzafonWrightClient(wsUrl)\<close>.\<close>

definition new_client :: "string \<Rightarrow> string option \<Rightarrow> TzafonWrightClient" where
  "new_client url ce =
     \<lparr> ws = False, isConnected = False, wsUrl = url, listeners = [], sent = [],
       ws_close_error = ce \<rparr>"

text \<open>
  The synchronous part of \<open>sendAction\<close> for the call \<open>k\<close>: either the call is answered at
  once (\<open>Some\<close>), or one listener is attached, the frame is sent, and the promise stays
  open (\<open>None\<close>). The source starts no timer here. On a client that is connected the
  transport accepts the frame, so the \<open>catch\<close> around \<open>ws.send\<close> is not entered.
\<close>

definition sendAction :: "nat \<Rightarrow> Command \<Rightarrow> TzafonWrightClient \<Rightarrow> settlement option \<times> TzafonWrightClient" where
  "sendAction k command c =
     (if \<not> ws c \<or> \<not> isConnected c
      then (Some (Resolved \<lparr> res_success = False, res_image = None,
                              res_error_message = Some ''Client not connected'' \<rparr>), c)
      else (None, c\<lparr> listeners := listeners c @ [k],
                     sent := sent c @ [commandData command] \<rparr>))"

text \<open>The commands that the methods \<open>goto\<close>, \<open>click\<close> and \<open>screenshot\<close> hand to \<open>sendAction\<close>.\<close>

definition goto_command :: "string \<Rightarrow> jsnum option \<Rightarrow> Command" where
  "goto_command u t =
     \<lparr> cmd_action_type = GOTO, cmd_x = None, cmd_y = None, cmd_text = None,
       cmd_delta_x = None, cmd_delta_y = None, cmd_url = Some u,
       cmd_width = None, cmd_height = None, cmd_timeout = t \<rparr>"

definition click_command :: "jsnum \<Rightarrow> jsnum \<Rightarrow> Command" where
  "click_command px py =
     \<lparr> cmd_action_type = CLICK, cmd_x = Some px, cmd_y = Some py, cmd_text = None,
       cmd_delta_x = None, cmd_delta_y = None, cmd_url = None,
       cmd_width = None, cmd_height = None, cmd_timeout = None \<rparr>"

definition screenshot_command :: Command where
  "screenshot_command =
     \<lparr> cmd_action_type = SCREENSHOT, cmd_x = None, cmd_y = None, cmd_text = None,
       cmd_delta_x = None, cmd_delta_y = None, cmd_url = None,
       cmd_width = None, cmd_height = None, cmd_timeout = None \<rparr>"

definition setViewportSize_command :: "jsnum \<Rightarrow> jsnum \<Rightarrow> Command" where
  "setViewportSize_command wd ht =
     \<lparr> cmd_action_type = SET_VIEWPORT_SIZE, cmd_x = None, cmd_y = None, cmd_text = None,
       cmd_delta_x = None, cmd_delta_y = None, cmd_url = None,
       cmd_width = Some wd, cmd_height = Some ht, cmd_timeout = None \<rparr>"

text \<open>
  The transport raises \<open>message\<close>: every listener attached at that moment is called with
  the same data, in order; each detaches itself and settles its own promise.
\<close>

definition run_listener :: "inbound \<Rightarrow> (nat \<times> settlement) list \<times> TzafonWrightClient \<Rightarrow> nat
    \<Rightarrow> (nat \<times> settlement) list \<times> TzafonWrightClient" where
  "run_listener data acc k =
     (fst acc @ [(k, messageHandler data)],
      (snd acc)\<lparr> listeners := remove1 k (listeners (snd acc)) \<rparr>)"

definition emit_message :: "inbound \<Rightarrow> TzafonWrightClient \<Rightarrow> (nat \<times> settlement) list \<times> TzafonWrightClient" where
  "emit_message data c = foldl (run_listener data) ([], c) (listeners c)"

text \<open>\<open>close()\<close>: with a transport, \<open>ws.close()\<close> and then \<open>isConnected = false\<close>.\<close>

definition client_close :: "TzafonWrightClient \<Rightarrow> unit outcome \<times> TzafonWrightClient" where
  "client_close c =
     (if ws c
      then (case ws_close_error c of
              Some e \<Rightarrow> (Throws e, c)
            | None \<Rightarrow> (Returns (), c\<lparr> isConnected := False \<rparr>))
      else (Returns (), c))"

subsection \<open>One Connection under a sequence of events\<close>

text \<open>
  What can happen to one Connection: a caller issues the call \<open>k\<close>; the transport
  delivers a message; the transport reports that the connection closed; time passes.
  \<open>settled\<close> lists the calls settled so far, each with its settlement; \<open>clock\<close> is the
  time in milliseconds. No handler of the client is bound to a timer, so the passing of
  time moves the clock and nothing else.
\<close>

datatype event = Call nat Command | Message inbound | Closed | Elapse nat

record connection =
  client :: TzafonWrightClient
  settled :: "(nat \<times> settlement) list"
  clock :: nat

fun step :: "connection \<Rightarrow> event \<Rightarrow> connection" where
  "step s (Call k command) =
     (case sendAction k command (client s) of
        (Some r, c) \<Rightarrow> s\<lparr> client := c, settled := settled s @ [(k, r)] \<rparr>
      | (None, c) \<Rightarrow> s\<lparr> client := c \<rparr>)"
| "step s (Message data) =
     (case emit_message data (client s) of
        (rs, c) \<Rightarrow> s\<lparr> client := c, settled := settled s @ rs \<rparr>)"
| "step s Closed = s\<lparr> client := (client s)\<lparr> isConnected := False \<rparr> \<rparr>"
| "step s (Elapse d) = s\<lparr> clock := clock s + d \<rparr>"

definition run :: "connection \<Rightarrow> event list \<Rightarrow> connection" where
  "run s es = foldl step s es"

text \<open>An open Connection with no call outstanding.\<close>

definition open_connection :: "string \<Rightarrow> connection" where
  "open_connection url =
     \<lparr> client = (new_client url None)\<lparr> ws := True, isConnected := True \<rparr>,
       settled = [], clock = 0 \<rparr>"

text \<open>The calls still waiting for an answer.\<close>

definition outstanding :: "connection \<Rightarrow> nat list" where
  "outstanding s = listeners (client s)"

section \<open>The process state: clients, registry and store\<close>

text \<open>
  The interface \<open>Config\<close>, as far as the core reads it: the proxy address and the
  optional viewport.
\<close>

record viewPort =
  browserWidth :: "jsnum option"
  browserHeight :: "jsnum option"

record Config =
  proxyUrl :: string
  viewPort :: "viewPort option"

record CreateSessionParams =
  prm_proxyUrl :: "string option"

text \<open>
  \<open>BrowserSession\<close> (types.ts). A client is a reference into the table of clients; the
  source tests \<open>!session.client\<close>, so the field may be missing (\<open>None\<close>).
\<close>

record BrowserSession =
  bs_client :: "nat option"
  bs_sessionId :: string

text \<open>\<open>TzafonWrightSession\<close> (types.ts); of the metadata only the name is kept.\<close>

record TzafonWrightSession =
  tw_id :: string
  tw_client :: nat
  tw_created :: nat
  tw_name :: "string option"

text \<open>
  How the proxy treats one client: what \<open>connect()\<close> meets, after how many milliseconds,
  and whether closing the transport throws. \<open>Opens reply\<close>: the transport raises \<open>open\<close>,
  and \<open>reply\<close> is the first message it delivers afterwards, if it ever delivers one.
  \<open>Ctor_throws\<close>: \<open>new WebSocket(url)\<close> throws, so \<open>ws\<close> stays \<open>null\<close>. \<open>Silent\<close>: neither
  \<open>open\<close> nor \<open>error\<close> is ever raised.
\<close>

datatype connect_outcome =
  Opens "inbound option" | Errors string | Ctor_throws string | Silent

record transport =
  on_connect :: connect_outcome
  latency :: nat
  close_error :: "string option"

text \<open>
  The lines written to stderr that the properties below refer to: the warnings of the
  failure paths, and the two lines of the bulk provisioner that announce a batch (its
  number, the number of batches, its size) and the pause after it.
\<close>

datatype log_entry =
  SessionManager_close_warning string string
| Store_close_error string string
| Store_not_found string
| SetActive_warning string
| Bulk_processing_batch int int rat
| Bulk_waiting rat

text \<open>
  The module-level state of sessionManager.ts and tzafonwrightStore.ts, with the table of
  client objects they refer to. Both JavaScript \<open>Map\<close>s keep insertion order, hence
  association lists. \<open>net\<close> says how the proxy will treat the client built at each
  address; \<open>close_log\<close> lists the clients whose \<open>close()\<close> was called, in call order.
\<close>

record world =
  clients :: "nat \<Rightarrow> TzafonWrightClient"
  next_ref :: nat
  net :: "nat \<Rightarrow> transport"
  browsers :: "(string \<times> BrowserSession) list"
  defaultBrowserSession :: "BrowserSession option"
  defaultSessionId :: string
  activeSessionId :: string
  store :: "(string \<times> TzafonWrightSession) list"
  close_log :: "nat list"
  stderr :: "log_entry list"

text \<open>\<open>await client.close()\<close> on the client at address \<open>r\<close>.\<close>

definition close_ref :: "nat \<Rightarrow> world \<Rightarrow> unit outcome \<times> world" where
  "close_ref r w =
     (case client_close (clients w r) of
        (res, c) \<Rightarrow> (res, w\<lparr> clients := (clients w)(r := c), close_log := close_log w @ [r] \<rparr>))"

text \<open>
  \<open>await client.connect()\<close> on the client at address \<open>r\<close>: the constructor of the
  transport may throw; otherwise \<open>ws\<close> is set and the first of \<open>open\<close> and \<open>error\<close> settles
  the promise.
\<close>

definition connect_ref :: "nat \<Rightarrow> world \<Rightarrow> unit outcome \<times> world" where
  "connect_ref r w =
     (let c = clients w r in
      case on_connect (net w r) of
        Ctor_throws e \<Rightarrow> (Throws e, w)
      | Opens reply \<Rightarrow> (Returns (), w\<lparr> clients := (clients w)(r := c\<lparr> ws := True, isConnected := True \<rparr>) \<rparr>)
      | Errors e \<Rightarrow> (Throws e, w\<lparr> clients := (clients w)(r := c\<lparr> ws := True, isConnected := False \<rparr>) \<rparr>)
      | Silent \<Rightarrow> (Pending, w\<lparr> clients := (clients w)(r := c\<lparr> ws := True \<rparr>) \<rparr>))"

text \<open>
  \<open>await client.setViewportSize({width, height})\<close> on a client just connected: the call
  \<open>sendAction\<close> with the first message the transport delivers, if any.
\<close>

definition setViewportSize_ref :: "nat \<Rightarrow> jsnum \<Rightarrow> jsnum \<Rightarrow> world \<Rightarrow> Result outcome \<times> world" where
  "setViewportSize_ref r wd ht w =
     (case sendAction 0 (setViewportSize_command wd ht) (clients w r) of
        (Some (Resolved res), c) \<Rightarrow> (Returns res, w\<lparr> clients := (clients w)(r := c) \<rparr>)
      | (Some (Rejected e), c) \<Rightarrow> (Throws e, w\<lparr> clients := (clients w)(r := c) \<rparr>)
      | (None, c) \<Rightarrow>
          (case on_connect (net w r) of
             Opens (Some data) \<Rightarrow>
               (case emit_message data c of
                  (rs, c') \<Rightarrow>
                    (case messageHandler data of
                       Resolved res \<Rightarrow> (Returns res, w\<lparr> clients := (clients w)(r := c') \<rparr>)
                     | Rejected e \<Rightarrow> (Throws e, w\<lparr> clients := (clients w)(r := c') \<rparr>)))
           | _ \<Rightarrow> (Pending, w\<lparr> clients := (clients w)(r := c) \<rparr>)))"

text \<open>Both viewport dimensions are configured and truthy.\<close>

definition viewport_of :: "Config \<Rightarrow> (jsnum \<times> jsnum) option" where
  "viewport_of config =
     (case viewPort config of
        None \<Rightarrow> None
      | Some v \<Rightarrow>
          (case (browserWidth v, browserHeight v) of
             (Some wd, Some ht) \<Rightarrow> if truthy_num wd \<and> truthy_num ht then Some (wd, ht) else None
           | _ \<Rightarrow> None))"

subsection \<open>tzafonwrightStore.ts\<close>

text \<open>
  The \<open>catch\<close> block of \<open>createTzafonWrightClient\<close>: \<open>await client.close(); throw error\<close>.
  If the close itself throws, that error is the one that leaves the block.
\<close>

definition close_and_rethrow :: "nat \<Rightarrow> string \<Rightarrow> world \<Rightarrow> nat outcome \<times> world" where
  "close_and_rethrow r e w =
     (case close_ref r w of
        (Throws ce, w1) \<Rightarrow> (Throws ce, w1)
      | (_, w1) \<Rightarrow> (Throws e, w1))"

text \<open>
  \<open>createTzafonWrightClient\<close>: build a client, connect it, set the viewport if one is
  configured; on any error close the client and rethrow.
\<close>

definition createTzafonWrightClient :: "Config \<Rightarrow> CreateSessionParams \<Rightarrow> string \<Rightarrow> world \<Rightarrow> nat outcome \<times> world" where
  "createTzafonWrightClient config params sessionId w =
     (let url = or_str (prm_proxyUrl params) (proxyUrl config) in
      if url = [] then (Throws ''TzafonWright proxy URL is required'', w)
      else
        let r = next_ref w;
            w1 = w\<lparr> clients := (clients w)(r := new_client url (close_error (net w r))),
                    next_ref := Suc r \<rparr>
        in case connect_ref r w1 of
             (Pending, w2) \<Rightarrow> (Pending, w2)
           | (Throws e, w2) \<Rightarrow> close_and_rethrow r e w2
           | (Returns u, w2) \<Rightarrow>
               (case viewport_of config of
                  None \<Rightarrow> (Returns r, w2)
                | Some (wd, ht) \<Rightarrow>
                    (case setViewportSize_ref r wd ht w2 of
                       (Pending, w3) \<Rightarrow> (Pending, w3)
                     | (Throws e, w3) \<Rightarrow> close_and_rethrow r e w3
                     | (Returns res, w3) \<Rightarrow> (Returns r, w3))))"

text \<open>\<open>storeSession\<close>: \<open>store.set(session.id, session)\<close>.\<close>

definition storeSession :: "TzafonWrightSession \<Rightarrow> world \<Rightarrow> world" where
  "storeSession session w = w\<lparr> store := AList.update (tw_id session) session (store w) \<rparr>"

text \<open>\<open>list\<close>: the sessions of the store, in insertion order.\<close>

definition list_sessions :: "world \<Rightarrow> TzafonWrightSession list" where
  "list_sessions w = map snd (store w)"

text \<open>
  \<open>remove\<close>: close the client inside \<open>try\<close>, log a failure inside \<open>catch\<close>, delete the entry
  inside \<open>finally\<close>.
\<close>

definition remove :: "string \<Rightarrow> world \<Rightarrow> world" where
  "remove ident w =
     (case map_of (store w) ident of
        None \<Rightarrow> w\<lparr> stderr := stderr w @ [Store_not_found ident] \<rparr>
      | Some session \<Rightarrow>
          (case close_ref (tw_client session) w of
             (Throws e, w1) \<Rightarrow>
               w1\<lparr> stderr := stderr w1 @ [Store_close_error ident e],
                   store := AList.delete ident (store w1) \<rparr>
           | (_, w1) \<Rightarrow> w1\<lparr> store := AList.delete ident (store w1) \<rparr>))"

text \<open>\<open>removeAll\<close>: \<open>remove\<close> for every session listed when it is called.\<close>

definition removeAll_store :: "world \<Rightarrow> world" where
  "removeAll_store w = foldl (\<lambda>acc s. remove (tw_id s) acc) w (list_sessions w)"

text \<open>
  Two ways the proxy can treat a client that is being created, used to state properties:
  it \<open>accepts\<close> when the transport opens and, if a viewport is configured, answers the
  viewport command with a frame that parses; it \<open>refuses\<close> when the transport fails to
  open, or answers the viewport command with a frame that does not parse. (A transport
  that stays silent does neither.)
\<close>

definition accepts :: "Config \<Rightarrow> transport \<Rightarrow> bool" where
  "accepts config t =
     (case on_connect t of
        Opens reply \<Rightarrow>
          (case viewport_of config of
             None \<Rightarrow> True
           | Some v \<Rightarrow> (case reply of Some (Json r) \<Rightarrow> True | _ \<Rightarrow> False))
      | _ \<Rightarrow> False)"

definition refuses :: "Config \<Rightarrow> transport \<Rightarrow> bool" where
  "refuses config t =
     (case on_connect t of
        Opens reply \<Rightarrow>
          (case viewport_of config of
             None \<Rightarrow> False
           | Some v \<Rightarrow> (case reply of Some (Malformed m) \<Rightarrow> True | _ \<Rightarrow> False))
      | Errors e \<Rightarrow> True
      | Ctor_throws e \<Rightarrow> True
      | Silent \<Rightarrow> False)"

subsection \<open>The session registry (sessionManager.ts)\<close>

definition setActiveSessionId :: "string \<Rightarrow> world \<Rightarrow> world" where
  "setActiveSessionId ident w =
     (if map_of (browsers w) ident \<noteq> None \<or> ident = defaultSessionId w
      then w\<lparr> activeSessionId := ident \<rparr>
      else w\<lparr> stderr := stderr w @ [SetActive_warning ident] \<rparr>)"

definition getActiveSessionId :: "world \<Rightarrow> string" where
  "getActiveSessionId w = activeSessionId w"

definition createNewBrowserSession :: "string \<Rightarrow> Config \<Rightarrow> world \<Rightarrow> BrowserSession outcome \<times> world" where
  "createNewBrowserSession newSessionId config w =
     (if proxyUrl config = []
      then (Throws ''TzafonWright proxy URL is missing in the configuration.'', w)
      else
        case createTzafonWrightClient config \<lparr> prm_proxyUrl = Some (proxyUrl config) \<rparr> newSessionId w of
          (Pending, w1) \<Rightarrow> (Pending, w1)
        | (Throws e, w1) \<Rightarrow>
            (Throws (''Failed to create/connect session '' @ newSessionId @ '': '' @ e), w1)
        | (Returns r, w1) \<Rightarrow>
            (let sessionObj = \<lparr> bs_client = Some r, bs_sessionId = newSessionId \<rparr>;
                 w2 = w1\<lparr> browsers := AList.update newSessionId sessionObj (browsers w1) \<rparr>;
                 w3 = (if newSessionId = defaultSessionId w2
                       then w2\<lparr> defaultBrowserSession := Some sessionObj \<rparr> else w2)
             in (Returns sessionObj, setActiveSessionId newSessionId w3)))"

text \<open>\<open>closeBrowserGracefully\<close>: close the client if the session has one; a failure is logged.\<close>

definition closeBrowserGracefully :: "BrowserSession option \<Rightarrow> string \<Rightarrow> world \<Rightarrow> world" where
  "closeBrowserGracefully session sessionIdToLog w =
     (case session of
        None \<Rightarrow> w
      | Some s \<Rightarrow>
          (case bs_client s of
             None \<Rightarrow> w
           | Some r \<Rightarrow>
               (case close_ref r w of
                  (Throws e, w1) \<Rightarrow>
                    w1\<lparr> stderr := stderr w1 @ [SessionManager_close_warning sessionIdToLog e] \<rparr>
                | (_, w1) \<Rightarrow> w1)))"

text \<open>
  The block \<open>if (needsReCreation) { ... }\<close> of \<open>ensureDefaultSessionInternal\<close>: creation
  is tried, and tried once more if it throws.
\<close>

definition recreate_default :: "Config \<Rightarrow> world \<Rightarrow> BrowserSession outcome \<times> world" where
  "recreate_default config w =
     (let sessionId = defaultSessionId w in
      case createNewBrowserSession sessionId config w of
        (Returns s, w1) \<Rightarrow> (Returns s, w1\<lparr> defaultBrowserSession := Some s \<rparr>)
      | (Pending, w1) \<Rightarrow> (Pending, w1)
      | (Throws creationError, w1) \<Rightarrow>
          (case createNewBrowserSession sessionId config w1 of
             (Returns s, w2) \<Rightarrow> (Returns s, w2\<lparr> defaultBrowserSession := Some s \<rparr>)
           | (Pending, w2) \<Rightarrow> (Pending, w2)
           | (Throws retryError, w2) \<Rightarrow>
               (Throws (''Failed to ensure default session '' @ sessionId
                          @ '' after initial error and retry: '' @ retryError), w2)))"

text \<open>
  \<open>ensureDefaultSessionInternal\<close>. The default session needs creating when there is none,
  or when the one there has no client (\<open>!defaultBrowserSession.client\<close>); any other default
  session is taken to be fine and is returned as it is.
\<close>

definition ensureDefaultSessionInternal :: "Config \<Rightarrow> world \<Rightarrow> BrowserSession outcome \<times> world" where
  "ensureDefaultSessionInternal config w =
     (let sessionId = defaultSessionId w in
      case defaultBrowserSession w of
        None \<Rightarrow> recreate_default config w
      | Some d \<Rightarrow>
          (if bs_client d = None
           then
             (let w1 = closeBrowserGracefully (Some d) sessionId w;
                  w2 = w1\<lparr> defaultBrowserSession := None \<rparr>;
                  w3 = w2\<lparr> browsers := AList.delete sessionId (browsers w2) \<rparr>
              in recreate_default config w3)
           else (Returns d, setActiveSessionId sessionId w)))"

text \<open>\<open>cleanupSession\<close>.\<close>

definition cleanupSession :: "string \<Rightarrow> world \<Rightarrow> world" where
  "cleanupSession sessionId w =
     (let w1 = (case map_of (browsers w) sessionId of
                  None \<Rightarrow> w
                | Some session \<Rightarrow> closeBrowserGracefully (Some session) sessionId w);
          w2 = w1\<lparr> browsers := AList.delete sessionId (browsers w1) \<rparr>;
          w3 = (if sessionId = defaultSessionId w2 \<and> defaultBrowserSession w2 \<noteq> None
                then w2\<lparr> defaultBrowserSession := None \<rparr> else w2)
      in if activeSessionId w3 = sessionId
         then setActiveSessionId (defaultSessionId w3) w3
         else w3)"

text \<open>\<open>closeAllSessions\<close>: close every entry of the map, then clear it.\<close>

definition closeAllSessions :: "world \<Rightarrow> world" where
  "closeAllSessions w =
     (let w1 = foldl (\<lambda>acc (ident, session). closeBrowserGracefully (Some session) ident acc)
                 w (browsers w);
          w2 = w1\<lparr> browsers := [], defaultBrowserSession := None \<rparr>
      in setActiveSessionId (defaultSessionId w2) w2)"

subsection \<open>The shutdown coordinator (program.ts)\<close>

text \<open>
  Modelled from the spec: \<open>ServerList.closeAll\<close> (server.ts) is not part of the sources at
  hand. The specification names the two cleanups that the exit handler runs side by side
  as the store-level \<open>removeAll\<close> and the close of every tracked Connection through the
  registry's \<open>removeAll\<close>; the latter is \<open>closeAllSessions\<close>.
\<close>

definition serverList_closeAll :: "world \<Rightarrow> world" where
  "serverList_closeAll w = closeAllSessions w"

text \<open>
  \<open>handleExit\<close> of \<open>setupExitWatchdog\<close>. \<open>Promise.all\<close> receives both promises, so both
  cleanups have been started before either is awaited: the second starts whatever the first
  does. Every \<open>close()\<close> they call runs before its first suspension point, hence before the
  15000 ms timer or the final \<open>process.exit(0)\<close> can run.
\<close>

definition handleExit :: "world \<Rightarrow> world" where
  "handleExit w = serverList_closeAll (removeAll_store w)"

section \<open>The bulk provisioner (TzafonWrightClient.createBulkSessions)\<close>

text \<open>
  \<open>count\<close>, \<open>batchSize\<close> and \<open>batchDelay\<close> are JavaScript numbers, and nothing on the way from
  the tool's schema (\<open>z.number().min(1).max(50)\<close>, \<open>z.number().min(1).max(10)\<close>) to
  \<open>createBulkSessions\<close> makes them integers. A number is modelled by the rational it
  denotes; the rounding of floating-point arithmetic is outside the model (the inputs of
  the examples, integers and halves, are computed with exactly).
\<close>

text \<open>
  The text that a template literal prints for a number is a parameter of a run. The
  printer below serves the examples; it is exact for integers and for numbers with at most
  17 decimal places.
\<close>

definition digit_char :: "nat \<Rightarrow> char" where
  "digit_char d = ''0123456789'' ! d"

fun decimal_digits :: "nat \<Rightarrow> string \<Rightarrow> string" where
  "decimal_digits n acc =
     (if 10 \<le> n then decimal_digits (n div 10) (digit_char (n mod 10) # acc)
      else digit_char n # acc)"

fun decimal_places :: "nat \<Rightarrow> rat \<Rightarrow> string" where
  "decimal_places 0 f = []"
| "decimal_places (Suc n) f =
     (if f = 0 then []
      else digit_char (nat \<lfloor>f * 10\<rfloor>) # decimal_places n (f * 10 - of_int \<lfloor>f * 10\<rfloor>))"

definition print_number :: "rat \<Rightarrow> string" where
  "print_number q =
     (let a = \<bar>q\<bar>; i = \<lfloor>a\<rfloor>; f = a - of_int i
      in (if q < 0 then ''-'' else []) @ decimal_digits (nat i) []
           @ (if f = 0 then [] else CHR ''.'' # decimal_places 17 f))"

text \<open>\<open>Math.ceil(count / batchSize)\<close>; a zero divisor gives no finite number.\<close>

definition ceil_div :: "rat \<Rightarrow> rat \<Rightarrow> jsnum" where
  "ceil_div a b =
     (if b = 0 then (if a = 0 then NaN else if 0 < a then Infinity else NegInfinity)
      else Num \<lceil>a / b\<rceil>)"

text \<open>
  The length of \<open>Array.from({ length: n }, ...)\<close>: \<open>n\<close> cut down to a whole number, and
  \<open>0\<close> if that is negative.
\<close>

definition array_length :: "rat \<Rightarrow> nat" where
  "array_length n = nat \<lfloor>n\<rfloor>"

text \<open>
  The options of a run; \<open>None\<close> is an option left out. Timers count whole milliseconds,
  and the tool always passes 10000 as \<open>connectionTimeout\<close>.
\<close>

record bulk_options =
  opt_batchSize :: "rat option"
  opt_batchDelay :: "rat option"
  opt_connectionTimeout :: "nat option"

record bulk_success =
  ok_client :: nat
  ok_sessionId :: string
  ok_name :: string

record bulk_failure =
  fl_error :: string
  fl_name :: string

record batch_result =
  batchNumber :: int
  br_successful :: nat
  br_failed :: nat

record bulk_results =
  successful :: "bulk_success list"
  failed :: "bulk_failure list"
  batchResults :: "batch_result list"

text \<open>The value of one attempt's promise, and how \<open>Promise.allSettled\<close> reports it.\<close>

record attempt_value =
  av_success :: bool
  av_client :: "nat option"
  av_sessionId :: "string option"
  av_error :: "string option"
  av_name :: string

datatype settled_result = Fulfilled attempt_value | Rejected_reason "string option"

text \<open>
  \<open>Promise.race([client.connect(), timer])\<close> for the client at address \<open>r\<close>. A throwing
  constructor rejects at once; otherwise the transport wins if it settles in less than
  \<open>connectionTimeout\<close> milliseconds, and the timer wins if not.
\<close>

definition race_connect :: "nat \<Rightarrow> nat \<Rightarrow> world \<Rightarrow> unit outcome \<times> world" where
  "race_connect r connectionTimeout w =
     (let timed_out = (Throws ''Connection timeout'',
                       w\<lparr> clients := (clients w)(r := (clients w r)\<lparr> ws := True \<rparr>) \<rparr>)
      in case on_connect (net w r) of
           Ctor_throws e \<Rightarrow> connect_ref r w
         | Silent \<Rightarrow> timed_out
         | _ \<Rightarrow> if latency (net w r) < connectionTimeout then connect_ref r w else timed_out)"

text \<open>
  The constants of one run, with two things the runtime supplies: \<open>stamp\<close>, the text
  \<open>${Date.now()}-${Math.random().toString(36).substring(2, 9)}\<close> drawn for the attempt that
  builds the client at a given address, and \<open>print\<close>, the text printed for a number.
\<close>

record bulk_run =
  run_proxyUrl :: string
  run_count :: rat
  run_namePrefix :: string
  run_batchSize :: rat
  run_batchDelay :: rat
  run_connectionTimeout :: nat
  run_totalBatches :: int
  run_stamp :: "nat \<Rightarrow> string"
  run_print :: "rat \<Rightarrow> string"

text \<open>
  The body of one attempt (the callback given to \<open>Array.from\<close>). The race always settles,
  so its last case is never taken.
\<close>

definition attempt :: "bulk_run \<Rightarrow> rat \<Rightarrow> nat \<Rightarrow> world \<Rightarrow> settled_result \<times> world" where
  "attempt p startIndex indexInBatch w =
     (let globalIndex = startIndex + of_nat indexInBatch;
          r = next_ref w;
          sessionName = run_namePrefix p @ ''-'' @ run_print p (globalIndex + 1);
          sessionId = sessionName @ ''-'' @ run_stamp p r;
          w1 = w\<lparr> clients := (clients w)(r := new_client (run_proxyUrl p) (close_error (net w r))),
                  next_ref := Suc r \<rparr>
      in case race_connect r (run_connectionTimeout p) w1 of
           (Returns u, w2) \<Rightarrow>
             (Fulfilled \<lparr> av_success = True, av_client = Some r, av_sessionId = Some sessionId,
                          av_error = None, av_name = sessionName \<rparr>, w2)
         | (Throws errorMsg, w2) \<Rightarrow>
             (Fulfilled \<lparr> av_success = False, av_client = None, av_sessionId = None,
                          av_error = Some errorMsg, av_name = sessionName \<rparr>, w2)
         | (Pending, w2) \<Rightarrow>
             (Fulfilled \<lparr> av_success = False, av_client = None, av_sessionId = None,
                          av_error = Some ''Connection timeout'', av_name = sessionName \<rparr>, w2))"

text \<open>All attempts of a batch, started in index order; \<open>batchPromises\<close> once settled.\<close>

definition launch :: "bulk_run \<Rightarrow> rat \<Rightarrow> nat \<Rightarrow> world \<Rightarrow> settled_result list \<times> world" where
  "launch p startIndex n w =
     foldl (\<lambda>(rs, v) indexInBatch.
              case attempt p startIndex indexInBatch v of (res, v') \<Rightarrow> (rs @ [res], v'))
       ([], w) [0..<n]"

text \<open>The body of \<open>batchResults.forEach\<close>, on the results and the two counters of the batch.\<close>

fun tally :: "bulk_results \<times> nat \<times> nat \<Rightarrow> settled_result \<Rightarrow> bulk_results \<times> nat \<times> nat" where
  "tally (results, batchSuccessful, batchFailed) (Fulfilled v) =
     (case (av_client v, av_sessionId v) of
        (Some cl, Some sid) \<Rightarrow>
          if av_success v \<and> sid \<noteq> [] \<and> av_name v \<noteq> []
          then (results\<lparr> successful := successful results @
                            [\<lparr> ok_client = cl, ok_sessionId = sid, ok_name = av_name v \<rparr>] \<rparr>,
                batchSuccessful + 1, batchFailed)
          else (results\<lparr> failed := failed results @
                            [\<lparr> fl_error = or_str (av_error v) ''Unknown error'',
                               fl_name = or_str (Some (av_name v)) ''unknown-session'' \<rparr>] \<rparr>,
                batchSuccessful, batchFailed + 1)
      | _ \<Rightarrow>
          (results\<lparr> failed := failed results @
                      [\<lparr> fl_error = or_str (av_error v) ''Unknown error'',
                         fl_name = or_str (Some (av_name v)) ''unknown-session'' \<rparr>] \<rparr>,
           batchSuccessful, batchFailed + 1))"
| "tally (results, batchSuccessful, batchFailed) (Rejected_reason m) =
     (results\<lparr> failed := failed results @
                 [\<lparr> fl_error = or_str m ''Unknown error'', fl_name = ''unknown-session'' \<rparr>] \<rparr>,
      batchSuccessful, batchFailed + 1)"

text \<open>One pass through the body of the \<open>for\<close> loop.\<close>

definition run_batch :: "bulk_run \<Rightarrow> int \<Rightarrow> bulk_results \<times> world \<Rightarrow> bulk_results \<times> world" where
  "run_batch p batchIndex acc =
     (let startIndex = of_int batchIndex * run_batchSize p;
          endIndex = min (startIndex + run_batchSize p) (run_count p);
          batchCount = endIndex - startIndex;
          w1 = (snd acc)\<lparr> stderr := stderr (snd acc) @
                  [Bulk_processing_batch (batchIndex + 1) (run_totalBatches p) batchCount] \<rparr>;
          (settledResults, w2) = launch p startIndex (array_length batchCount) w1;
          (results, batchSuccessful, batchFailed) = foldl tally (fst acc, 0, 0) settledResults;
          results' = results\<lparr> batchResults := batchResults results @
                       [\<lparr> batchNumber = batchIndex + 1, br_successful = batchSuccessful,
                          br_failed = batchFailed \<rparr>] \<rparr>;
          w3 = (if batchIndex < run_totalBatches p - 1
                then w2\<lparr> stderr := stderr w2 @ [Bulk_waiting (run_batchDelay p)] \<rparr> else w2)
      in (results', w3))"

function batch_loop :: "bulk_run \<Rightarrow> int \<Rightarrow> bulk_results \<times> world \<Rightarrow> bulk_results \<times> world" where
  "batch_loop p batchIndex acc =
     (if batchIndex < run_totalBatches p
      then batch_loop p (batchIndex + 1) (run_batch p batchIndex acc)
      else acc)"
  by pat_completeness auto
termination
  by (relation "measure (\<lambda>(p, batchIndex, acc). nat (run_totalBatches p - batchIndex))") auto

text \<open>
  \<open>createBulkSessions\<close>. With an infinite number of batches the loop never ends and the
  promise never settles.
\<close>

definition createBulkSessions ::
    "string \<Rightarrow> rat \<Rightarrow> string option \<Rightarrow> bulk_options \<Rightarrow> (nat \<Rightarrow> string) \<Rightarrow> (rat \<Rightarrow> string)
      \<Rightarrow> world \<Rightarrow> bulk_results outcome \<times> world" where
  "createBulkSessions url count namePrefix options stamp print w =
     (let batchSize = (case opt_batchSize options of None \<Rightarrow> min 5 count | Some b \<Rightarrow> b);
          batchDelay = (case opt_batchDelay options of None \<Rightarrow> 2000 | Some d \<Rightarrow> d);
          connectionTimeout = (case opt_connectionTimeout options of None \<Rightarrow> 10000 | Some t \<Rightarrow> t);
          results = \<lparr> successful = [], failed = [], batchResults = [] \<rparr>
      in case ceil_div count batchSize of
           Num totalBatches \<Rightarrow>
             (case batch_loop
                     \<lparr> run_proxyUrl = url, run_count = count,
                       run_namePrefix = (case namePrefix of None \<Rightarrow> ''session'' | Some n \<Rightarrow> n),
                       run_batchSize = batchSize, run_batchDelay = batchDelay,
                       run_connectionTimeout = connectionTimeout,
                       run_totalBatches = totalBatches, run_stamp = stamp, run_print = print \<rparr>
                     0 (results, w) of
                (res, w') \<Rightarrow> (Returns res, w'))
         | Infinity \<Rightarrow> (Pending, w)
         | _ \<Rightarrow> (Returns results, w))"

text \<open>
  The values of \<open>batchCount\<close> announced on stderr, in order, and the number of attempts
  that each batch summary accounts for.
\<close>

definition accounted :: "bulk_results \<Rightarrow> nat list" where
  "accounted res = map (\<lambda>r. br_successful r + br_failed r) (batchResults res)"

fun announced_sizes :: "log_entry list \<Rightarrow> rat list" where
  "announced_sizes [] = []"
| "announced_sizes (Bulk_processing_batch i t n # es) = n # announced_sizes es"
| "announced_sizes (e # es) = announced_sizes es"

section \<open>Properties of the Connection\<close>

subsection \<open>Auxiliary facts\<close>

lemma commandData_timeout_truthy: "truthy_num (cd_timeout (commandData command))"
  by (cases "cmd_timeout command") (auto simp: commandData_def)

lemma foldl_run_listener:
  "foldl (run_listener data) (out, c\<lparr> listeners := ks \<rparr>) ks
     = (out @ map (\<lambda>k. (k, messageHandler data)) ks, c\<lparr> listeners := [] \<rparr>)"
proof (induction ks arbitrary: out c)
  case Nil
  show ?case by simp
next
  case (Cons k ks)
  have "run_listener data (out, c\<lparr> listeners := k # ks \<rparr>) k
          = (out @ [(k, messageHandler data)], c\<lparr> listeners := ks \<rparr>)"
    by (simp add: run_listener_def)
  then show ?case using Cons.IH [of "out @ [(k, messageHandler data)]" c] by simp
qed

lemma emit_message_all:
  "emit_message data c = (map (\<lambda>k. (k, messageHandler data)) (listeners c), c\<lparr> listeners := [] \<rparr>)"
  using foldl_run_listener [where data = data and out = "[]" and c = c and ks = "listeners c"]
  by (simp add: emit_message_def)

lemma step_Call_open:
  "ws (client s) \<Longrightarrow> isConnected (client s) \<Longrightarrow>
   step s (Call k command) =
     s\<lparr> client := (client s)\<lparr> listeners := listeners (client s) @ [k],
                                sent := sent (client s) @ [commandData command] \<rparr> \<rparr>"
  by (simp add: sendAction_def)

lemma step_Message:
  "step s (Message data) =
     s\<lparr> client := (client s)\<lparr> listeners := [] \<rparr>,
        settled := settled s @ map (\<lambda>k. (k, messageHandler data)) (listeners (client s)) \<rparr>"
  by (simp add: emit_message_all)

lemma run_Elapse:
  "run s (map Elapse ds) = s\<lparr> clock := clock s + sum_list ds \<rparr>"
  unfolding run_def
  by (induction ds arbitrary: s) (simp_all add: add.assoc)

lemma run_append: "run s (es @ fs) = run (run s es) fs"
  by (simp add: run_def)

lemma run_Cons: "run s (e # es) = run (step s e) es"
  by (simp add: run_def)

lemma run_Nil: "run s [] = s"
  by (simp add: run_def)

subsection \<open>The timeout carried by a frame\<close>

text \<open>
  Claim C10. A command whose \<open>timeout\<close> is explicitly \<open>0\<close> goes out with \<open>timeout\<close> 30000:
  the default replaces every falsy timeout (\<open>0\<close> and \<open>NaN\<close> as well as a missing one), so
  the frame sent on an open Connection never carries a zero timeout.
\<close>

theorem sendAction_falsy_timeout:
  assumes "ws c" and "isConnected c" and "cmd_timeout command = Some t" and "\<not> truthy_num t"
  shows "fst (sendAction k command c) = None
       \<and> sent (snd (sendAction k command c)) = sent c @ [commandData command]
       \<and> cd_timeout (commandData command) = Num 30000"
  using assms by (simp add: sendAction_def commandData_def)

theorem sendAction_falsy_timeout_witness:
  "fst (sendAction 7 \<lparr> cmd_action_type = GOTO, cmd_x = None, cmd_y = None, cmd_text = None,
                       cmd_delta_x = None, cmd_delta_y = None, cmd_url = Some ''https://example.com'',
                       cmd_width = None, cmd_height = None, cmd_timeout = Some (Num 0) \<rparr>
          (client (open_connection ''ws://proxy''))) = None
   \<and> cd_timeout (commandData \<lparr> cmd_action_type = GOTO, cmd_x = None, cmd_y = None, cmd_text = None,
                       cmd_delta_x = None, cmd_delta_y = None, cmd_url = Some ''https://example.com'',
                       cmd_width = None, cmd_height = None, cmd_timeout = Some (Num 0) \<rparr>) = Num 30000"
  using sendAction_falsy_timeout [of "client (open_connection ''ws://proxy'')"
      "\<lparr> cmd_action_type = GOTO, cmd_x = None, cmd_y = None, cmd_text = None,
                       cmd_delta_x = None, cmd_delta_y = None, cmd_url = Some ''https://example.com'',
                       cmd_width = None, cmd_height = None, cmd_timeout = Some (Num 0) \<rparr>" "Num 0" 7]
  by (simp add: open_connection_def new_client_def)

subsection \<open>Listeners and deadlines\<close>

text \<open>
  Claim C2, as stated, fails: \<open>sendAction\<close> starts no timer, so a call that is never
  answered is never settled and its listener is never detached. Here the command asks
  for a timeout of 1000 ms, 60000 ms pass without a message, and the call is still
  outstanding; the 1000 has only been forwarded in the frame.
\<close>

theorem call_timeout_counterexample:
  "outstanding (run (open_connection ''ws://proxy'')
       [Call 1 (goto_command ''https://a.example'' (Some (Num 1000))), Elapse 60000]) = [1]
   \<and> settled (run (open_connection ''ws://proxy'')
       [Call 1 (goto_command ''https://a.example'' (Some (Num 1000))), Elapse 60000]) = []
   \<and> clock (run (open_connection ''ws://proxy'')
       [Call 1 (goto_command ''https://a.example'' (Some (Num 1000))), Elapse 60000]) = 60000
   \<and> map cd_timeout (sent (client (run (open_connection ''ws://proxy'')
       [Call 1 (goto_command ''https://a.example'' (Some (Num 1000))), Elapse 60000]))) = [Num 1000]"
  by (simp add: run_def open_connection_def new_client_def outstanding_def sendAction_def
      commandData_def goto_command_def)

text \<open>
  Claim C2, amended. A call issued on an open Connection attaches exactly one listener
  for the next inbound message, and the listener is detached when that message arrives,
  settling the call with it. The call has no deadline of its own: until a message
  arrives the listener stays attached and the call stays unsettled, however much time
  passes.
\<close>

theorem call_has_no_deadline:
  assumes "ws (client s)" and "isConnected (client s)"
  shows "outstanding (run s (Call k command # map Elapse ds)) = outstanding s @ [k]
       \<and> settled (run s (Call k command # map Elapse ds)) = settled s
       \<and> outstanding (run s (Call k command # map Elapse ds @ [Message data])) = []
       \<and> settled (run s (Call k command # map Elapse ds @ [Message data]))
           = settled s @ map (\<lambda>j. (j, messageHandler data)) (outstanding s @ [k])"
proof -
  let ?s1 = "step s (Call k command)"
  let ?s2 = "run ?s1 (map Elapse ds)"
  have s1: "?s1 = s\<lparr> client := (client s)\<lparr> listeners := listeners (client s) @ [k],
                                sent := sent (client s) @ [commandData command] \<rparr> \<rparr>"
    using assms by (rule step_Call_open)
  have s2: "?s2 = ?s1\<lparr> clock := clock ?s1 + sum_list ds \<rparr>"
    by (rule run_Elapse)
  have a: "run s (Call k command # map Elapse ds) = ?s2"
    by (simp only: run_Cons)
  have b: "run s (Call k command # map Elapse ds @ [Message data]) = step ?s2 (Message data)"
    by (simp only: run_Cons run_append run_Nil)
  have o2: "outstanding ?s2 = outstanding s @ [k]" and t2: "settled ?s2 = settled s"
    using assms by (simp_all add: run_Elapse sendAction_def outstanding_def)
  have "outstanding (step ?s2 (Message data)) = []"
    unfolding step_Message by (simp add: outstanding_def)
  moreover have "settled (step ?s2 (Message data))
      = settled s @ map (\<lambda>j. (j, messageHandler data)) (outstanding s @ [k])"
    unfolding step_Message using o2 t2 by (simp add: outstanding_def)
  ultimately show ?thesis using a b o2 t2 by simp
qed

theorem call_has_no_deadline_witness:
  "outstanding (run (open_connection ''ws://proxy'')
       (Call 1 (goto_command ''https://a.example'' (Some (Num 1000))) # map Elapse [500, 500, 59000])) = [1]
   \<and> settled (run (open_connection ''ws://proxy'')
       (Call 1 (goto_command ''https://a.example'' (Some (Num 1000))) # map Elapse [500, 500, 59000]
          @ [Message (Malformed ''SyntaxError'')]))
       = [(1, Rejected ''Failed to parse response: SyntaxError'')]"
  using call_has_no_deadline [of "open_connection ''ws://proxy''" 1
      "goto_command ''https://a.example'' (Some (Num 1000))" "[500, 500, 59000]"
      "Malformed ''SyntaxError''"]
  by (simp add: open_connection_def new_client_def outstanding_def)

subsection \<open>Several calls at once\<close>

text \<open>
  Claim C1, as stated, fails: a Connection has no single-flight guard. Two calls issued
  back to back are both outstanding (the second is neither rejected nor queued), the
  first message that arrives settles both of them, and the answer meant for the second
  call, an image, reaches nobody.
\<close>

theorem single_flight_counterexample:
  "outstanding (run (open_connection ''ws://proxy'')
       [Call 1 (goto_command ''https://a.example'' None), Call 2 screenshot_command]) = [1, 2]
   \<and> settled (run (open_connection ''ws://proxy'')
       [Call 1 (goto_command ''https://a.example'' None), Call 2 screenshot_command,
        Message (Json \<lparr> rsp_success = Some True, rsp_error_message = None, rsp_image = None \<rparr>),
        Message (Json \<lparr> rsp_success = Some True, rsp_error_message = None,
                         rsp_image = Some ''aGk='' \<rparr>)])
       = [(1, Resolved \<lparr> res_success = True, res_image = None, res_error_message = None \<rparr>),
          (2, Resolved \<lparr> res_success = True, res_image = None, res_error_message = None \<rparr>)]"
  by (simp add: run_def open_connection_def new_client_def outstanding_def sendAction_def
      emit_message_def run_listener_def)

text \<open>
  Claim C1, amended. A Connection does not limit the number of outstanding calls. A call
  issued on an open Connection while others are outstanding is neither rejected nor
  queued: its frame is sent at once and its listener is attached beside the others. The
  next inbound message is delivered to every attached listener, so all outstanding calls
  settle with that one message, and a later message settles none of them.
\<close>

theorem concurrent_calls_share_one_message:
  assumes "ws (client s)" and "isConnected (client s)"
  shows "outstanding (run s [Call k1 c1, Call k2 c2]) = outstanding s @ [k1, k2]
       \<and> sent (client (run s [Call k1 c1, Call k2 c2]))
           = sent (client s) @ [commandData c1, commandData c2]
       \<and> settled (run s [Call k1 c1, Call k2 c2]) = settled s
       \<and> settled (run s [Call k1 c1, Call k2 c2, Message a])
           = settled s @ map (\<lambda>k. (k, messageHandler a)) (outstanding s @ [k1, k2])
       \<and> outstanding (run s [Call k1 c1, Call k2 c2, Message a]) = []
       \<and> settled (run s [Call k1 c1, Call k2 c2, Message a, Message b])
           = settled (run s [Call k1 c1, Call k2 c2, Message a])"
proof -
  let ?s2 = "run s [Call k1 c1, Call k2 c2]"
  have s2: "?s2 = s\<lparr> client := (client s)\<lparr> listeners := listeners (client s) @ [k1, k2],
                         sent := sent (client s) @ [commandData c1, commandData c2] \<rparr> \<rparr>"
    using assms by (simp add: run_def sendAction_def)
  have a: "run s [Call k1 c1, Call k2 c2, Message a] = step ?s2 (Message a)"
    by (simp add: run_def)
  have b: "run s [Call k1 c1, Call k2 c2, Message a, Message b]
             = step (step ?s2 (Message a)) (Message b)"
    by (simp add: run_def)
  show ?thesis
    unfolding a b unfolding step_Message unfolding s2
    by (simp add: outstanding_def)
qed

theorem concurrent_calls_share_one_message_witness:
  "outstanding (run (open_connection ''ws://proxy'')
       [Call 1 (goto_command ''https://a.example'' None), Call 2 screenshot_command]) = [1, 2]
   \<and> settled (run (open_connection ''ws://proxy'')
       [Call 1 (goto_command ''https://a.example'' None), Call 2 screenshot_command,
        Message (Json \<lparr> rsp_success = Some True, rsp_error_message = None, rsp_image = None \<rparr>)])
       = [(1, Resolved \<lparr> res_success = True, res_image = None, res_error_message = None \<rparr>),
          (2, Resolved \<lparr> res_success = True, res_image = None, res_error_message = None \<rparr>)]"
  using concurrent_calls_share_one_message
    [of "open_connection ''ws://proxy''" 1 "goto_command ''https://a.example'' None" 2
        screenshot_command "Json \<lparr> rsp_success = Some True, rsp_error_message = None, rsp_image = None \<rparr>"]
  by (simp add: open_connection_def new_client_def outstanding_def)

section \<open>Properties of the registry and the store\<close>

subsection \<open>Auxiliary facts\<close>

lemma close_ref_frame [simp]:
  "next_ref (snd (close_ref r w)) = next_ref w"
  "net (snd (close_ref r w)) = net w"
  "browsers (snd (close_ref r w)) = browsers w"
  "defaultBrowserSession (snd (close_ref r w)) = defaultBrowserSession w"
  "defaultSessionId (snd (close_ref r w)) = defaultSessionId w"
  "activeSessionId (snd (close_ref r w)) = activeSessionId w"
  "store (snd (close_ref r w)) = store w"
  "stderr (snd (close_ref r w)) = stderr w"
  "close_log (snd (close_ref r w)) = close_log w @ [r]"
  "a \<noteq> r \<Longrightarrow> clients (snd (close_ref r w)) a = clients w a"
  by (simp_all add: close_ref_def split: prod.split)

lemma close_ref_fst:
  "fst (close_ref r w) =
     (if ws (clients w r) then (case ws_close_error (clients w r) of Some e \<Rightarrow> Throws e | None \<Rightarrow> Returns ())
      else Returns ())"
  by (simp add: close_ref_def client_close_def split: prod.split option.split)

lemma closeBrowserGracefully_frame [simp]:
  "next_ref (closeBrowserGracefully so i w) = next_ref w"
  "net (closeBrowserGracefully so i w) = net w"
  "browsers (closeBrowserGracefully so i w) = browsers w"
  "defaultBrowserSession (closeBrowserGracefully so i w) = defaultBrowserSession w"
  "defaultSessionId (closeBrowserGracefully so i w) = defaultSessionId w"
  "activeSessionId (closeBrowserGracefully so i w) = activeSessionId w"
  "store (closeBrowserGracefully so i w) = store w"
  by (simp_all add: closeBrowserGracefully_def close_ref_def split: option.split prod.split outcome.split)

lemma closeBrowserGracefully_close_log:
  "close_log (closeBrowserGracefully so i w)
     = close_log w @ (case so of None \<Rightarrow> [] | Some s \<Rightarrow> (case bs_client s of None \<Rightarrow> [] | Some r \<Rightarrow> [r]))"
  by (simp add: closeBrowserGracefully_def close_ref_def split: option.split prod.split outcome.split)

lemma closeBrowserGracefully_stderr:
  "stderr (closeBrowserGracefully (Some s) i w)
     = stderr w @ (case bs_client s of
                     None \<Rightarrow> []
                   | Some r \<Rightarrow> (case fst (close_ref r w) of Throws e \<Rightarrow> [SessionManager_close_warning i e] | _ \<Rightarrow> []))"
  by (simp add: closeBrowserGracefully_def close_ref_def split: option.split prod.split outcome.split)

lemma setActiveSessionId_default [simp]:
  "defaultSessionId w = d \<Longrightarrow> setActiveSessionId d w = w\<lparr> activeSessionId := d \<rparr>"
  by (simp add: setActiveSessionId_def)

subsection \<open>Removing a session\<close>

text \<open>
  Claim C9. \<open>remove(id)\<close>, in the registry (\<open>cleanupSession\<close>) and in the store (\<open>remove\<close>),
  deletes the entry whatever closing the Connection does: a close that throws is logged
  and nothing is raised. If the removed id was the active one, the active identifier
  becomes the default id; if it was the default id, the default slot is cleared, so that
  the next access to the default session creates it anew.
\<close>

theorem remove_always_evicts:
  "map_of (browsers (cleanupSession ident w)) ident = None
   \<and> (activeSessionId w = ident \<longrightarrow> activeSessionId (cleanupSession ident w) = defaultSessionId w)
   \<and> (ident = defaultSessionId w \<longrightarrow>
        defaultBrowserSession (cleanupSession ident w) = None
        \<and> ensureDefaultSessionInternal config (cleanupSession ident w)
            = recreate_default config (cleanupSession ident w))
   \<and> (\<forall>s r e. map_of (browsers w) ident = Some s \<and> bs_client s = Some r
                \<and> ws (clients w r) \<and> ws_close_error (clients w r) = Some e
        \<longrightarrow> stderr (cleanupSession ident w) = stderr w @ [SessionManager_close_warning ident e])
   \<and> map_of (store (remove ident w)) ident = None
   \<and> (\<forall>s e. map_of (store w) ident = Some s
              \<and> ws (clients w (tw_client s)) \<and> ws_close_error (clients w (tw_client s)) = Some e
        \<longrightarrow> stderr (remove ident w) = stderr w @ [Store_close_error ident e])"
proof -
  have f1: "map_of (browsers (cleanupSession ident w)) ident = None"
    by (simp add: cleanupSession_def Let_def delete_conv' split: option.split)
  have f2: "activeSessionId w = ident \<longrightarrow> activeSessionId (cleanupSession ident w) = defaultSessionId w"
    by (simp add: cleanupSession_def Let_def split: option.split)
  have f3: "ident = defaultSessionId w \<longrightarrow> defaultBrowserSession (cleanupSession ident w) = None"
    by (auto simp add: cleanupSession_def Let_def split: option.split)
  have f4: "ident = defaultSessionId w \<longrightarrow>
      ensureDefaultSessionInternal config (cleanupSession ident w)
            = recreate_default config (cleanupSession ident w)"
    using f3 by (simp add: ensureDefaultSessionInternal_def)
  have f5: "\<forall>s r e. map_of (browsers w) ident = Some s \<and> bs_client s = Some r
                \<and> ws (clients w r) \<and> ws_close_error (clients w r) = Some e
        \<longrightarrow> stderr (cleanupSession ident w) = stderr w @ [SessionManager_close_warning ident e]"
    by (auto simp add: cleanupSession_def Let_def closeBrowserGracefully_stderr close_ref_fst)
  have f6: "map_of (store (remove ident w)) ident = None"
    by (simp add: remove_def delete_conv' close_ref_def split: option.split prod.split outcome.split)
  have f7: "\<forall>s e. map_of (store w) ident = Some s
              \<and> ws (clients w (tw_client s)) \<and> ws_close_error (clients w (tw_client s)) = Some e
        \<longrightarrow> stderr (remove ident w) = stderr w @ [Store_close_error ident e]"
    by (auto simp add: remove_def close_ref_def client_close_def split: option.split prod.split outcome.split)
  show ?thesis
    apply (intro conjI)
    subgoal by (rule f1)
    subgoal by (rule f2)
    subgoal using f3 f4 by (intro impI conjI) (erule (1) mp)+
    subgoal by (rule f5)
    subgoal by (rule f6)
    subgoal by (rule f7)
    done
qed

theorem remove_always_evicts_witness:
  "let w = \<lparr> clients = (\<lambda>a. \<lparr> ws = True, isConnected = True, wsUrl = ''ws://proxy'',
                               listeners = [], sent = [], ws_close_error = Some ''boom'' \<rparr>),
               next_ref = 1,
               net = (\<lambda>a. \<lparr> on_connect = Opens None, latency = 5, close_error = None \<rparr>),
               browsers = [(''main'', \<lparr> bs_client = Some 0, bs_sessionId = ''main'' \<rparr>)],
               defaultBrowserSession = Some \<lparr> bs_client = Some 0, bs_sessionId = ''main'' \<rparr>,
               defaultSessionId = ''main'', activeSessionId = ''main'',
               store = [(''main'', \<lparr> tw_id = ''main'', tw_client = 0, tw_created = 0, tw_name = None \<rparr>)],
               close_log = [], stderr = [] \<rparr>
   in map_of (browsers (cleanupSession ''main'' w)) ''main'' = None
      \<and> activeSessionId (cleanupSession ''main'' w) = ''main''
      \<and> defaultBrowserSession (cleanupSession ''main'' w) = None
      \<and> stderr (cleanupSession ''main'' w) = [SessionManager_close_warning ''main'' ''boom'']
      \<and> map_of (store (remove ''main'' w)) ''main'' = None
      \<and> stderr (remove ''main'' w) = [Store_close_error ''main'' ''boom'']"
  unfolding Let_def
  using remove_always_evicts [where ident = "''main''" and w =
      "\<lparr> clients = (\<lambda>a. \<lparr> ws = True, isConnected = True, wsUrl = ''ws://proxy'',
                               listeners = [], sent = [], ws_close_error = Some ''boom'' \<rparr>),
               next_ref = 1,
               net = (\<lambda>a. \<lparr> on_connect = Opens None, latency = 5, close_error = None \<rparr>),
               browsers = [(''main'', \<lparr> bs_client = Some 0, bs_sessionId = ''main'' \<rparr>)],
               defaultBrowserSession = Some \<lparr> bs_client = Some 0, bs_sessionId = ''main'' \<rparr>,
               defaultSessionId = ''main'', activeSessionId = ''main'',
               store = [(''main'', \<lparr> tw_id = ''main'', tw_client = 0, tw_created = 0, tw_name = None \<rparr>)],
               close_log = [], stderr = [] \<rparr>"]
  by simp

subsection \<open>Creating a client\<close>

lemma connect_ref_frame [simp]:
  "next_ref (snd (connect_ref r w)) = next_ref w"
  "net (snd (connect_ref r w)) = net w"
  "browsers (snd (connect_ref r w)) = browsers w"
  "defaultBrowserSession (snd (connect_ref r w)) = defaultBrowserSession w"
  "defaultSessionId (snd (connect_ref r w)) = defaultSessionId w"
  "activeSessionId (snd (connect_ref r w)) = activeSessionId w"
  "store (snd (connect_ref r w)) = store w"
  "stderr (snd (connect_ref r w)) = stderr w"
  "close_log (snd (connect_ref r w)) = close_log w"
  "a \<noteq> r \<Longrightarrow> clients (snd (connect_ref r w)) a = clients w a"
  by (simp_all add: connect_ref_def Let_def split: connect_outcome.split)

lemma setViewportSize_ref_frame [simp]:
  "next_ref (snd (setViewportSize_ref r wd ht w)) = next_ref w"
  "net (snd (setViewportSize_ref r wd ht w)) = net w"
  "browsers (snd (setViewportSize_ref r wd ht w)) = browsers w"
  "defaultBrowserSession (snd (setViewportSize_ref r wd ht w)) = defaultBrowserSession w"
  "defaultSessionId (snd (setViewportSize_ref r wd ht w)) = defaultSessionId w"
  "activeSessionId (snd (setViewportSize_ref r wd ht w)) = activeSessionId w"
  "store (snd (setViewportSize_ref r wd ht w)) = store w"
  "stderr (snd (setViewportSize_ref r wd ht w)) = stderr w"
  "close_log (snd (setViewportSize_ref r wd ht w)) = close_log w"
  "a \<noteq> r \<Longrightarrow> clients (snd (setViewportSize_ref r wd ht w)) a = clients w a"
  by (simp_all add: setViewportSize_ref_def split: prod.split option.split settlement.split
      connect_outcome.split)

lemma setViewportSize_ref_connected:
  "isConnected (clients w r) \<Longrightarrow> ws (clients w r) \<Longrightarrow>
   isConnected (clients (snd (setViewportSize_ref r wd ht w)) r)
   \<and> ws (clients (snd (setViewportSize_ref r wd ht w)) r)"
  by (simp add: setViewportSize_ref_def sendAction_def emit_message_all
      split: prod.split option.split settlement.split connect_outcome.split)

lemma setViewportSize_ref_fst:
  "isConnected (clients w r) \<Longrightarrow> ws (clients w r) \<Longrightarrow>
   fst (setViewportSize_ref r wd ht w) =
     (case on_connect (net w r) of
        Opens (Some data) \<Rightarrow>
          (case messageHandler data of Resolved res \<Rightarrow> Returns res | Rejected e \<Rightarrow> Throws e)
      | _ \<Rightarrow> Pending)"
  by (simp add: setViewportSize_ref_def sendAction_def emit_message_all
      split: prod.split option.split settlement.split connect_outcome.split)

text \<open>What a creation attempt leaves unchanged, however it ends.\<close>

lemma close_and_rethrow_frame [simp]:
  "next_ref (snd (close_and_rethrow r e w)) = next_ref w"
  "net (snd (close_and_rethrow r e w)) = net w"
  "browsers (snd (close_and_rethrow r e w)) = browsers w"
  "defaultBrowserSession (snd (close_and_rethrow r e w)) = defaultBrowserSession w"
  "defaultSessionId (snd (close_and_rethrow r e w)) = defaultSessionId w"
  "activeSessionId (snd (close_and_rethrow r e w)) = activeSessionId w"
  "store (snd (close_and_rethrow r e w)) = store w"
  "stderr (snd (close_and_rethrow r e w)) = stderr w"
  "close_log (snd (close_and_rethrow r e w)) = close_log w @ [r]"
  "a \<noteq> r \<Longrightarrow> clients (snd (close_and_rethrow r e w)) a = clients w a"
  by (simp_all add: close_and_rethrow_def close_ref_def split: prod.split outcome.split)

lemma close_and_rethrow_throws: "\<exists>e'. fst (close_and_rethrow r e w) = Throws e'"
  by (simp add: close_and_rethrow_def split: prod.split outcome.split)

lemma createTzafonWrightClient_frame [simp]:
  "net (snd (createTzafonWrightClient config params sid w)) = net w"
  "browsers (snd (createTzafonWrightClient config params sid w)) = browsers w"
  "defaultBrowserSession (snd (createTzafonWrightClient config params sid w)) = defaultBrowserSession w"
  "defaultSessionId (snd (createTzafonWrightClient config params sid w)) = defaultSessionId w"
  "activeSessionId (snd (createTzafonWrightClient config params sid w)) = activeSessionId w"
  "store (snd (createTzafonWrightClient config params sid w)) = store w"
  "stderr (snd (createTzafonWrightClient config params sid w)) = stderr w"
  "a < next_ref w \<Longrightarrow> clients (snd (createTzafonWrightClient config params sid w)) a = clients w a"
  by (simp_all add: createTzafonWrightClient_def Let_def split_beta
      split: prod.split outcome.split option.split)

lemmas creation_defs =
  createTzafonWrightClient_def connect_ref_def setViewportSize_ref_def sendAction_def
  emit_message_all new_client_def Let_def

lemmas creation_splits =
  prod.split outcome.split option.split settlement.split connect_outcome.split inbound.split

lemma createTzafonWrightClient_no_url:
  "or_str (prm_proxyUrl params) (proxyUrl config) = [] \<Longrightarrow>
   createTzafonWrightClient config params sid w = (Throws ''TzafonWright proxy URL is required'', w)"
  by (simp add: createTzafonWrightClient_def)

text \<open>The three ways a creation attempt can end, each with what it does to the state.\<close>

lemma createTzafonWrightClient_cases:
  assumes url: "or_str (prm_proxyUrl params) (proxyUrl config) \<noteq> []"
  obtains
    (accepted) "accepts config (net w (next_ref w))"
      "fst (createTzafonWrightClient config params sid w) = Returns (next_ref w)"
      "next_ref (snd (createTzafonWrightClient config params sid w)) = Suc (next_ref w)"
      "close_log (snd (createTzafonWrightClient config params sid w)) = close_log w"
      "ws (clients (snd (createTzafonWrightClient config params sid w)) (next_ref w))"
      "isConnected (clients (snd (createTzafonWrightClient config params sid w)) (next_ref w))"
  | (refused) e where "refuses config (net w (next_ref w))"
      "\<not> accepts config (net w (next_ref w))"
      "fst (createTzafonWrightClient config params sid w) = Throws e"
      "next_ref (snd (createTzafonWrightClient config params sid w)) = Suc (next_ref w)"
      "close_log (snd (createTzafonWrightClient config params sid w)) = close_log w @ [next_ref w]"
  | (silent) "\<not> accepts config (net w (next_ref w))" "\<not> refuses config (net w (next_ref w))"
      "fst (createTzafonWrightClient config params sid w) = Pending"
      "next_ref (snd (createTzafonWrightClient config params sid w)) = Suc (next_ref w)"
      "close_log (snd (createTzafonWrightClient config params sid w)) = close_log w"
proof (cases "on_connect (net w (next_ref w))")
  case (Opens reply)
  show ?thesis
  proof (cases "viewport_of config")
    case None
    with Opens url show ?thesis
      by (intro accepted) (simp_all add: creation_defs accepts_def)
  next
    case (Some v)
    obtain wd ht where v: "v = (wd, ht)" by (cases v)
    show ?thesis
    proof (cases reply)
      case None
      with Opens Some v url show ?thesis
        by (intro silent) (simp_all add: creation_defs accepts_def refuses_def)
    next
      case (Some data)
      note facts = Opens \<open>viewport_of config = Some v\<close> v Some url
      show ?thesis
      proof (cases data)
        case (Json r)
        with facts show ?thesis
          by (intro accepted) (simp_all add: creation_defs accepts_def)
      next
        case (Malformed m)
        let ?w = "snd (setViewportSize_ref (next_ref w) wd ht
                    (snd (connect_ref (next_ref w)
                       (w\<lparr> clients := (clients w)(next_ref w :=
                              new_client (or_str (prm_proxyUrl params) (proxyUrl config))
                                (close_error (net w (next_ref w)))),
                            next_ref := Suc (next_ref w) \<rparr>))))"
        have C: "createTzafonWrightClient config params sid w
                   = close_and_rethrow (next_ref w) (''Failed to parse response: '' @ m) ?w"
          using facts Malformed
          by (simp add: createTzafonWrightClient_def Let_def connect_ref_def
              setViewportSize_ref_def sendAction_def emit_message_all new_client_def)
        have "\<exists>e. fst (createTzafonWrightClient config params sid w) = Throws e"
          unfolding C by (rule close_and_rethrow_throws)
        then obtain e where e: "fst (createTzafonWrightClient config params sid w) = Throws e" ..
        have n: "next_ref (snd (createTzafonWrightClient config params sid w)) = Suc (next_ref w)"
          and l: "close_log (snd (createTzafonWrightClient config params sid w))
                    = close_log w @ [next_ref w]"
          unfolding C by simp_all
        from facts Malformed show ?thesis
          by (intro refused [of e]) (simp_all add: e n l accepts_def refuses_def)
      qed
    qed
  qed
next
  case (Errors e)
  let ?w = "snd (connect_ref (next_ref w)
                   (w\<lparr> clients := (clients w)(next_ref w :=
                          new_client (or_str (prm_proxyUrl params) (proxyUrl config))
                            (close_error (net w (next_ref w)))),
                        next_ref := Suc (next_ref w) \<rparr>))"
  have C: "createTzafonWrightClient config params sid w = close_and_rethrow (next_ref w) e ?w"
    using url Errors by (simp add: createTzafonWrightClient_def Let_def connect_ref_def)
  have "\<exists>e'. fst (createTzafonWrightClient config params sid w) = Throws e'"
    unfolding C by (rule close_and_rethrow_throws)
  then obtain e' where e': "fst (createTzafonWrightClient config params sid w) = Throws e'" ..
  have n: "next_ref (snd (createTzafonWrightClient config params sid w)) = Suc (next_ref w)"
    and l: "close_log (snd (createTzafonWrightClient config params sid w))
              = close_log w @ [next_ref w]"
    unfolding C by simp_all
  from url Errors show ?thesis
    by (intro refused [of e']) (simp_all add: e' n l accepts_def refuses_def)
next
  case (Ctor_throws e)
  let ?w = "snd (connect_ref (next_ref w)
                   (w\<lparr> clients := (clients w)(next_ref w :=
                          new_client (or_str (prm_proxyUrl params) (proxyUrl config))
                            (close_error (net w (next_ref w)))),
                        next_ref := Suc (next_ref w) \<rparr>))"
  have C: "createTzafonWrightClient config params sid w = close_and_rethrow (next_ref w) e ?w"
    using url Ctor_throws by (simp add: createTzafonWrightClient_def Let_def connect_ref_def)
  have "\<exists>e'. fst (createTzafonWrightClient config params sid w) = Throws e'"
    unfolding C by (rule close_and_rethrow_throws)
  then obtain e' where e': "fst (createTzafonWrightClient config params sid w) = Throws e'" ..
  have n: "next_ref (snd (createTzafonWrightClient config params sid w)) = Suc (next_ref w)"
    and l: "close_log (snd (createTzafonWrightClient config params sid w))
              = close_log w @ [next_ref w]"
    unfolding C by simp_all
  from url Ctor_throws show ?thesis
    by (intro refused [of e']) (simp_all add: e' n l accepts_def refuses_def)
next
  case Silent
  with url show ?thesis
    by (intro silent) (simp_all add: creation_defs accepts_def refuses_def)
qed

lemma createNewBrowserSession_no_url:
  "proxyUrl config = [] \<Longrightarrow>
   createNewBrowserSession ident config w
     = (Throws ''TzafonWright proxy URL is missing in the configuration.'', w)"
  by (simp add: createNewBrowserSession_def)

lemma createNewBrowserSession_cases:
  assumes url: "proxyUrl config \<noteq> []"
  obtains
    (accepted) "accepts config (net w (next_ref w))"
      "fst (createNewBrowserSession ident config w)
         = Returns \<lparr> bs_client = Some (next_ref w), bs_sessionId = ident \<rparr>"
      "next_ref (snd (createNewBrowserSession ident config w)) = Suc (next_ref w)"
      "net (snd (createNewBrowserSession ident config w)) = net w"
      "defaultSessionId (snd (createNewBrowserSession ident config w)) = defaultSessionId w"
      "browsers (snd (createNewBrowserSession ident config w))
         = AList.update ident \<lparr> bs_client = Some (next_ref w), bs_sessionId = ident \<rparr> (browsers w)"
      "activeSessionId (snd (createNewBrowserSession ident config w)) = ident"
      "defaultBrowserSession (snd (createNewBrowserSession ident config w))
         = (if ident = defaultSessionId w
            then Some \<lparr> bs_client = Some (next_ref w), bs_sessionId = ident \<rparr>
            else defaultBrowserSession w)"
      "close_log (snd (createNewBrowserSession ident config w)) = close_log w"
      "\<forall>a<next_ref w. clients (snd (createNewBrowserSession ident config w)) a = clients w a"
      "ws (clients (snd (createNewBrowserSession ident config w)) (next_ref w))"
      "isConnected (clients (snd (createNewBrowserSession ident config w)) (next_ref w))"
  | (refused) e where "refuses config (net w (next_ref w))"
      "\<not> accepts config (net w (next_ref w))"
      "fst (createNewBrowserSession ident config w)
         = Throws (''Failed to create/connect session '' @ ident @ '': '' @ e)"
      "next_ref (snd (createNewBrowserSession ident config w)) = Suc (next_ref w)"
      "net (snd (createNewBrowserSession ident config w)) = net w"
      "defaultSessionId (snd (createNewBrowserSession ident config w)) = defaultSessionId w"
      "browsers (snd (createNewBrowserSession ident config w)) = browsers w"
      "activeSessionId (snd (createNewBrowserSession ident config w)) = activeSessionId w"
      "defaultBrowserSession (snd (createNewBrowserSession ident config w)) = defaultBrowserSession w"
      "close_log (snd (createNewBrowserSession ident config w)) = close_log w @ [next_ref w]"
      "\<forall>a<next_ref w. clients (snd (createNewBrowserSession ident config w)) a = clients w a"
  | (silent) "\<not> accepts config (net w (next_ref w))" "\<not> refuses config (net w (next_ref w))"
      "fst (createNewBrowserSession ident config w) = Pending"
      "next_ref (snd (createNewBrowserSession ident config w)) = Suc (next_ref w)"
      "net (snd (createNewBrowserSession ident config w)) = net w"
      "defaultSessionId (snd (createNewBrowserSession ident config w)) = defaultSessionId w"
      "browsers (snd (createNewBrowserSession ident config w)) = browsers w"
      "activeSessionId (snd (createNewBrowserSession ident config w)) = activeSessionId w"
      "defaultBrowserSession (snd (createNewBrowserSession ident config w)) = defaultBrowserSession w"
      "close_log (snd (createNewBrowserSession ident config w)) = close_log w"
      "\<forall>a<next_ref w. clients (snd (createNewBrowserSession ident config w)) a = clients w a"
proof -
  let ?params = "\<lparr> prm_proxyUrl = Some (proxyUrl config) \<rparr>"
  let ?C = "createTzafonWrightClient config ?params ident w"
  have url': "or_str (prm_proxyUrl ?params) (proxyUrl config) \<noteq> []"
    using url by simp
  obtain out w1 where C: "?C = (out, w1)" by (cases ?C)
  have w1: "w1 = snd ?C" and out: "out = fst ?C" using C by simp_all
  have frame:
    "net w1 = net w" "browsers w1 = browsers w" "defaultBrowserSession w1 = defaultBrowserSession w"
    "defaultSessionId w1 = defaultSessionId w" "activeSessionId w1 = activeSessionId w"
    "\<forall>a<next_ref w. clients w1 a = clients w a"
    unfolding w1 by simp_all
  from url' show ?thesis
  proof (cases rule: createTzafonWrightClient_cases [where sid = ident and w = w])
    case accepted
    then have o: "out = Returns (next_ref w)" and n: "next_ref w1 = Suc (next_ref w)"
      and cl: "close_log w1 = close_log w" and c: "ws (clients w1 (next_ref w))"
        "isConnected (clients w1 (next_ref w))"
      unfolding w1 out by simp_all
    show ?thesis
      using accepted(1) url
      by (intro that(1))
        (simp_all add: createNewBrowserSession_def C o n cl c frame Let_def
          setActiveSessionId_def update_conv')
  next
    case (refused e)
    then have o: "out = Throws e" and n: "next_ref w1 = Suc (next_ref w)"
      and cl: "close_log w1 = close_log w @ [next_ref w]"
      unfolding w1 out by simp_all
    show ?thesis
      using refused(1,2) url
      by (intro that(2) [of e]) (simp_all add: createNewBrowserSession_def C o n cl frame)
  next
    case silent
    then have o: "out = Pending" and n: "next_ref w1 = Suc (next_ref w)"
      and cl: "close_log w1 = close_log w"
      unfolding w1 out by simp_all
    show ?thesis
      using silent(1,2) url
      by (intro that(3)) (simp_all add: createNewBrowserSession_def C o n cl frame)
  qed
qed

lemma accepts_not_refuses: "accepts config t \<Longrightarrow> \<not> refuses config t"
  by (auto simp: accepts_def refuses_def split: connect_outcome.splits option.splits inbound.splits)

text \<open>The ways the create-and-retry block can end.\<close>

lemma recreate_default_cases:
  assumes url: "proxyUrl config \<noteq> []"
  obtains
    (first) "accepts config (net w (next_ref w))"
      "fst (recreate_default config w)
         = Returns \<lparr> bs_client = Some (next_ref w), bs_sessionId = defaultSessionId w \<rparr>"
      "next_ref (snd (recreate_default config w)) = next_ref w + 1"
      "activeSessionId (snd (recreate_default config w)) = defaultSessionId w"
      "defaultBrowserSession (snd (recreate_default config w))
         = Some \<lparr> bs_client = Some (next_ref w), bs_sessionId = defaultSessionId w \<rparr>"
      "map_of (browsers (snd (recreate_default config w))) (defaultSessionId w)
         = Some \<lparr> bs_client = Some (next_ref w), bs_sessionId = defaultSessionId w \<rparr>"
      "close_log (snd (recreate_default config w)) = close_log w"
      "ws (clients (snd (recreate_default config w)) (next_ref w))"
      "isConnected (clients (snd (recreate_default config w)) (next_ref w))"
  | (second) "refuses config (net w (next_ref w))" "accepts config (net w (Suc (next_ref w)))"
      "fst (recreate_default config w)
         = Returns \<lparr> bs_client = Some (Suc (next_ref w)), bs_sessionId = defaultSessionId w \<rparr>"
      "next_ref (snd (recreate_default config w)) = next_ref w + 2"
      "activeSessionId (snd (recreate_default config w)) = defaultSessionId w"
      "defaultBrowserSession (snd (recreate_default config w))
         = Some \<lparr> bs_client = Some (Suc (next_ref w)), bs_sessionId = defaultSessionId w \<rparr>"
      "map_of (browsers (snd (recreate_default config w))) (defaultSessionId w)
         = Some \<lparr> bs_client = Some (Suc (next_ref w)), bs_sessionId = defaultSessionId w \<rparr>"
      "close_log (snd (recreate_default config w)) = close_log w @ [next_ref w]"
      "ws (clients (snd (recreate_default config w)) (Suc (next_ref w)))"
      "isConnected (clients (snd (recreate_default config w)) (Suc (next_ref w)))"
  | (failed) e where "refuses config (net w (next_ref w))" "refuses config (net w (Suc (next_ref w)))"
      "fst (recreate_default config w)
         = Throws (''Failed to ensure default session '' @ defaultSessionId w
                    @ '' after initial error and retry: ''
                    @ ''Failed to create/connect session '' @ defaultSessionId w @ '': '' @ e)"
      "next_ref (snd (recreate_default config w)) = next_ref w + 2"
      "activeSessionId (snd (recreate_default config w)) = activeSessionId w"
      "defaultBrowserSession (snd (recreate_default config w)) = defaultBrowserSession w"
      "browsers (snd (recreate_default config w)) = browsers w"
      "close_log (snd (recreate_default config w)) = close_log w @ [next_ref w, Suc (next_ref w)]"
  | (unsettled) "fst (recreate_default config w) = Pending"
      "\<not> accepts config (net w (next_ref w))"
      "\<not> (refuses config (net w (next_ref w)) \<and> accepts config (net w (Suc (next_ref w))))"
      "\<not> (refuses config (net w (next_ref w)) \<and> refuses config (net w (Suc (next_ref w))))"
      "next_ref (snd (recreate_default config w)) \<le> next_ref w + 2"
proof -
  let ?d = "defaultSessionId w"
  let ?A = "createNewBrowserSession ?d config w"
  obtain o1 w1 where A: "?A = (o1, w1)" by (cases ?A)
  have w1: "w1 = snd ?A" and o1: "o1 = fst ?A" using A by simp_all
  from url show ?thesis
  proof (cases rule: createNewBrowserSession_cases [where ident = ?d and w = w])
    case accepted
    then show ?thesis
      unfolding w1 [symmetric] o1 [symmetric]
      by (intro first) (simp_all add: recreate_default_def Let_def A update_conv')
  next
    case silent
    then show ?thesis
      unfolding w1 [symmetric] o1 [symmetric]
      by (intro unsettled) (simp_all add: recreate_default_def Let_def A)
  next
    case (refused e1)
    note r1 = refused [unfolded w1 [symmetric] o1 [symmetric]]
    let ?B = "createNewBrowserSession ?d config w1"
    obtain o2 w2 where B: "?B = (o2, w2)" by (cases ?B)
    have w2: "w2 = snd ?B" and o2: "o2 = fst ?B" using B by simp_all
    have n1: "next_ref w1 = Suc (next_ref w)" and net1: "net w1 = net w"
      and d1: "defaultSessionId w1 = ?d"
      using r1 by simp_all
    from url show ?thesis
    proof (cases rule: createNewBrowserSession_cases [where ident = ?d and w = w1])
      case accepted
      note a2 = accepted [unfolded w2 [symmetric] o2 [symmetric] n1 net1 d1]
      from r1 a2 show ?thesis
        by (intro second) (simp_all add: recreate_default_def Let_def A B update_conv')
    next
      case (refused e2)
      note r2 = refused [unfolded w2 [symmetric] o2 [symmetric] n1 net1 d1]
      from r1 r2 show ?thesis
        by (intro failed [of e2]) (simp_all add: recreate_default_def Let_def A B)
    next
      case silent
      note s2 = silent [unfolded w2 [symmetric] o2 [symmetric] n1 net1 d1]
      from r1 s2 show ?thesis
        by (intro unsettled) (simp_all add: recreate_default_def Let_def A B)
    qed
  qed
qed

lemma closeBrowserGracefully_no_client:
  "bs_client d = None \<Longrightarrow> closeBrowserGracefully (Some d) i w = w"
  by (simp add: closeBrowserGracefully_def)

lemma ensureDefaultSessionInternal_recreates:
  assumes "defaultBrowserSession w = None
           \<or> (\<exists>d. defaultBrowserSession w = Some d \<and> bs_client d = None)"
  obtains w0 where "ensureDefaultSessionInternal config w = recreate_default config w0"
    "next_ref w0 = next_ref w" "net w0 = net w" "defaultSessionId w0 = defaultSessionId w"
    "close_log w0 = close_log w" "clients w0 = clients w"
proof (cases "defaultBrowserSession w")
  case None
  then show ?thesis
    by (intro that [of w]) (simp_all add: ensureDefaultSessionInternal_def)
next
  case (Some d)
  with assms have "bs_client d = None" by simp
  with Some show ?thesis
    by (intro that [of "w\<lparr> defaultBrowserSession := None,
                          browsers := AList.delete (defaultSessionId w) (browsers w) \<rparr>"])
      (simp_all add: ensureDefaultSessionInternal_def Let_def closeBrowserGracefully_no_client)
qed

subsection \<open>The default session\<close>

text \<open>
  Claim C5. When the default session has to be created (there is none, or the one there
  has no client), creation is tried and, if it throws, tried exactly once more: an
  invocation builds at most two clients. If the first attempt succeeds its session is
  returned; if it fails and the second succeeds, the second session is returned; either
  way the default id is then the active one. The error is raised only when both attempts
  have failed.
\<close>

theorem default_creation_retried_once:
  assumes need: "defaultBrowserSession w = None
                 \<or> (\<exists>d. defaultBrowserSession w = Some d \<and> bs_client d = None)"
      and url: "proxyUrl config \<noteq> []"
  shows "next_ref (snd (ensureDefaultSessionInternal config w)) \<le> next_ref w + 2
    \<and> (accepts config (net w (next_ref w)) \<longrightarrow>
         fst (ensureDefaultSessionInternal config w)
           = Returns \<lparr> bs_client = Some (next_ref w), bs_sessionId = defaultSessionId w \<rparr>
         \<and> next_ref (snd (ensureDefaultSessionInternal config w)) = next_ref w + 1
         \<and> activeSessionId (snd (ensureDefaultSessionInternal config w)) = defaultSessionId w)
    \<and> (refuses config (net w (next_ref w)) \<and> accepts config (net w (Suc (next_ref w))) \<longrightarrow>
         fst (ensureDefaultSessionInternal config w)
           = Returns \<lparr> bs_client = Some (Suc (next_ref w)), bs_sessionId = defaultSessionId w \<rparr>
         \<and> next_ref (snd (ensureDefaultSessionInternal config w)) = next_ref w + 2
         \<and> activeSessionId (snd (ensureDefaultSessionInternal config w)) = defaultSessionId w)
    \<and> (refuses config (net w (next_ref w)) \<and> refuses config (net w (Suc (next_ref w))) \<longrightarrow>
         (\<exists>e. fst (ensureDefaultSessionInternal config w)
                 = Throws (''Failed to ensure default session '' @ defaultSessionId w
                            @ '' after initial error and retry: '' @ e))
         \<and> next_ref (snd (ensureDefaultSessionInternal config w)) = next_ref w + 2)
    \<and> ((\<exists>msg. fst (ensureDefaultSessionInternal config w) = Throws msg) \<longrightarrow>
         refuses config (net w (next_ref w)) \<and> refuses config (net w (Suc (next_ref w))))"
proof -
  from need obtain w0 where E: "ensureDefaultSessionInternal config w = recreate_default config w0"
    and w0: "next_ref w0 = next_ref w" "net w0 = net w" "defaultSessionId w0 = defaultSessionId w"
    by (rule ensureDefaultSessionInternal_recreates)
  from url show ?thesis
  proof (cases rule: recreate_default_cases [where w = w0])
    case first
    note f = first [unfolded w0]
    from f(1) have "\<not> refuses config (net w (next_ref w))" by (rule accepts_not_refuses)
    with f show ?thesis unfolding E w0 by simp
  next
    case second
    note f = second [unfolded w0]
    from f(1) have "\<not> accepts config (net w (next_ref w))" using accepts_not_refuses by blast
    moreover from f(2) have "\<not> refuses config (net w (Suc (next_ref w)))"
      by (rule accepts_not_refuses)
    ultimately show ?thesis using f unfolding E w0 by simp
  next
    case (failed e)
    note f = failed [unfolded w0]
    from f(1) have "\<not> accepts config (net w (next_ref w))" using accepts_not_refuses by blast
    moreover from f(2) have "\<not> accepts config (net w (Suc (next_ref w)))"
      using accepts_not_refuses by blast
    ultimately show ?thesis using f unfolding E w0 by simp
  next
    case unsettled
    note f = unsettled [unfolded w0]
    then show ?thesis unfolding E w0 by auto
  qed
qed

theorem default_creation_retried_once_witness:
  "let w = \<lparr> clients = (\<lambda>a. new_client [] None), next_ref = 0,
               net = (\<lambda>a. \<lparr> on_connect = (if a = 0 then Errors ''ECONNREFUSED'' else Opens None),
                              latency = 5, close_error = None \<rparr>),
               browsers = [], defaultBrowserSession = None,
               defaultSessionId = ''main'', activeSessionId = ''main'',
               store = [], close_log = [], stderr = [] \<rparr>;
       w' = w\<lparr> net := (\<lambda>a. \<lparr> on_connect = Errors ''ECONNREFUSED'', latency = 5, close_error = None \<rparr>) \<rparr>;
       config = \<lparr> proxyUrl = ''ws://proxy'', viewPort = None \<rparr>
   in fst (ensureDefaultSessionInternal config w)
        = Returns \<lparr> bs_client = Some 1, bs_sessionId = ''main'' \<rparr>
      \<and> next_ref (snd (ensureDefaultSessionInternal config w)) = 2
      \<and> activeSessionId (snd (ensureDefaultSessionInternal config w)) = ''main''
      \<and> (\<exists>e. fst (ensureDefaultSessionInternal config w')
                = Throws (''Failed to ensure default session main after initial error and retry: '' @ e))
      \<and> next_ref (snd (ensureDefaultSessionInternal config w')) = 2"
  unfolding Let_def
  using default_creation_retried_once [where config = "\<lparr> proxyUrl = ''ws://proxy'', viewPort = None \<rparr>"
      and w = "\<lparr> clients = (\<lambda>a. new_client [] None), next_ref = 0,
               net = (\<lambda>a. \<lparr> on_connect = (if a = 0 then Errors ''ECONNREFUSED'' else Opens None),
                              latency = 5, close_error = None \<rparr>),
               browsers = [], defaultBrowserSession = None,
               defaultSessionId = ''main'', activeSessionId = ''main'',
               store = [], close_log = [], stderr = [] \<rparr>"]
    default_creation_retried_once [where config = "\<lparr> proxyUrl = ''ws://proxy'', viewPort = None \<rparr>"
      and w = "\<lparr> clients = (\<lambda>a. new_client [] None), next_ref = 0,
               net = (\<lambda>a. \<lparr> on_connect = (if a = 0 then Errors ''ECONNREFUSED'' else Opens None),
                              latency = 5, close_error = None \<rparr>),
               browsers = [], defaultBrowserSession = None,
               defaultSessionId = ''main'', activeSessionId = ''main'',
               store = [], close_log = [], stderr = [] \<rparr>
               \<lparr> net := (\<lambda>a. \<lparr> on_connect = Errors ''ECONNREFUSED'', latency = 5, close_error = None \<rparr>) \<rparr>"]
  by (simp add: accepts_def refuses_def viewport_of_def)




subsection \<open>Creating a named session\<close>

lemma cleanupSession_frame [simp]:
  "next_ref (cleanupSession ident w) = next_ref w"
  "net (cleanupSession ident w) = net w"
  "defaultSessionId (cleanupSession ident w) = defaultSessionId w"
  "store (cleanupSession ident w) = store w"
  by (simp_all add: cleanupSession_def Let_def setActiveSessionId_def split: option.split)

lemma cleanupSession_close_log:
  "close_log (cleanupSession ident w)
     = close_log w @ (case map_of (browsers w) ident of
                        None \<Rightarrow> []
                      | Some s \<Rightarrow> (case bs_client s of None \<Rightarrow> [] | Some r \<Rightarrow> [r]))"
  by (cases "map_of (browsers w) ident")
    (simp_all add: cleanupSession_def Let_def closeBrowserGracefully_close_log)

text \<open>
  Claim C8, as stated, fails: \<open>createNewBrowserSession\<close> does not look whether the id is
  already in the map. Here the id is present with a live Connection (client 0); creating
  a session under the same id replaces the entry by client 1, while client 0 is never
  closed and stays connected.
\<close>

theorem createNamed_overwrite_counterexample:
  "map_of (browsers (snd (createNewBrowserSession ''a_tzafonwright''
       \<lparr> proxyUrl = ''ws://proxy'', viewPort = None \<rparr>
       \<lparr> clients = (\<lambda>a. \<lparr> ws = True, isConnected = True, wsUrl = ''ws://proxy'',
                            listeners = [], sent = [], ws_close_error = None \<rparr>),
         next_ref = 1,
         net = (\<lambda>a. \<lparr> on_connect = Opens None, latency = 5, close_error = None \<rparr>),
         browsers = [(''a_tzafonwright'', \<lparr> bs_client = Some 0, bs_sessionId = ''a_tzafonwright'' \<rparr>)],
         defaultBrowserSession = None,
         defaultSessionId = ''main'', activeSessionId = ''a_tzafonwright'',
         store = [], close_log = [], stderr = [] \<rparr>))) ''a_tzafonwright''
     = Some \<lparr> bs_client = Some 1, bs_sessionId = ''a_tzafonwright'' \<rparr>
   \<and> close_log (snd (createNewBrowserSession ''a_tzafonwright''
       \<lparr> proxyUrl = ''ws://proxy'', viewPort = None \<rparr>
       \<lparr> clients = (\<lambda>a. \<lparr> ws = True, isConnected = True, wsUrl = ''ws://proxy'',
                            listeners = [], sent = [], ws_close_error = None \<rparr>),
         next_ref = 1,
         net = (\<lambda>a. \<lparr> on_connect = Opens None, latency = 5, close_error = None \<rparr>),
         browsers = [(''a_tzafonwright'', \<lparr> bs_client = Some 0, bs_sessionId = ''a_tzafonwright'' \<rparr>)],
         defaultBrowserSession = None,
         defaultSessionId = ''main'', activeSessionId = ''a_tzafonwright'',
         store = [], close_log = [], stderr = [] \<rparr>)) = []
   \<and> isConnected (clients (snd (createNewBrowserSession ''a_tzafonwright''
       \<lparr> proxyUrl = ''ws://proxy'', viewPort = None \<rparr>
       \<lparr> clients = (\<lambda>a. \<lparr> ws = True, isConnected = True, wsUrl = ''ws://proxy'',
                            listeners = [], sent = [], ws_close_error = None \<rparr>),
         next_ref = 1,
         net = (\<lambda>a. \<lparr> on_connect = Opens None, latency = 5, close_error = None \<rparr>),
         browsers = [(''a_tzafonwright'', \<lparr> bs_client = Some 0, bs_sessionId = ''a_tzafonwright'' \<rparr>)],
         defaultBrowserSession = None,
         defaultSessionId = ''main'', activeSessionId = ''a_tzafonwright'',
         store = [], close_log = [], stderr = [] \<rparr>)) 0)"
  by (simp add: createNewBrowserSession_def createTzafonWrightClient_def connect_ref_def
      viewport_of_def new_client_def setActiveSessionId_def Let_def)

text \<open>
  Claim C8, amended. \<open>createNamed\<close> does not check for an existing entry: when it succeeds
  under an id already present, the map entry is replaced by the new Connection and the
  previous Connection is left as it was, not closed. The previous Connection is closed
  only if the caller removes the id first: after \<open>remove\<close> and then \<open>createNamed\<close> the old
  client has been closed, and the same new session is registered.
\<close>

theorem createNamed_replaces_without_closing:
  assumes ret: "fst (createNewBrowserSession ident config w) = Returns s"
      and old: "map_of (browsers w) ident = Some old" "bs_client old = Some r" "r < next_ref w"
  shows "s = \<lparr> bs_client = Some (next_ref w), bs_sessionId = ident \<rparr>
       \<and> map_of (browsers (snd (createNewBrowserSession ident config w))) ident = Some s
       \<and> clients (snd (createNewBrowserSession ident config w)) r = clients w r
       \<and> close_log (snd (createNewBrowserSession ident config w)) = close_log w
       \<and> fst (createNewBrowserSession ident config (cleanupSession ident w)) = Returns s
       \<and> close_log (snd (createNewBrowserSession ident config (cleanupSession ident w)))
           = close_log w @ [r]"
proof -
  have url: "proxyUrl config \<noteq> []"
    using ret by (auto simp: createNewBrowserSession_no_url)
  from url have acc: "accepts config (net w (next_ref w))"
  proof (cases rule: createNewBrowserSession_cases [where ident = ident and w = w])
    case accepted
    then show ?thesis by simp
  next
    case (refused e)
    with ret show ?thesis by simp
  next
    case silent
    with ret show ?thesis by simp
  qed
  from url have 1: "s = \<lparr> bs_client = Some (next_ref w), bs_sessionId = ident \<rparr>
       \<and> map_of (browsers (snd (createNewBrowserSession ident config w))) ident = Some s
       \<and> clients (snd (createNewBrowserSession ident config w)) r = clients w r
       \<and> close_log (snd (createNewBrowserSession ident config w)) = close_log w"
  proof (cases rule: createNewBrowserSession_cases [where ident = ident and w = w])
    case accepted
    with ret old show ?thesis by (simp add: update_conv')
  next
    case (refused e)
    with ret show ?thesis by simp
  next
    case silent
    with ret show ?thesis by simp
  qed
  let ?w = "cleanupSession ident w"
  from url have 2: "fst (createNewBrowserSession ident config ?w) = Returns s
       \<and> close_log (snd (createNewBrowserSession ident config ?w)) = close_log w @ [r]"
  proof (cases rule: createNewBrowserSession_cases [where ident = ident and w = ?w])
    case accepted
    with 1 old show ?thesis by (simp add: cleanupSession_close_log)
  next
    case (refused e)
    with acc show ?thesis by simp
  next
    case silent
    with acc show ?thesis by simp
  qed
  from 1 2 show ?thesis by simp
qed

theorem createNamed_replaces_without_closing_witness:
  "let config = \<lparr> proxyUrl = ''ws://proxy'', viewPort = None \<rparr>;
       w = \<lparr> clients = (\<lambda>a. \<lparr> ws = True, isConnected = True, wsUrl = ''ws://proxy'',
                                listeners = [], sent = [], ws_close_error = None \<rparr>),
             next_ref = 1,
             net = (\<lambda>a. \<lparr> on_connect = Opens None, latency = 5, close_error = None \<rparr>),
             browsers = [(''a_tzafonwright'', \<lparr> bs_client = Some 0, bs_sessionId = ''a_tzafonwright'' \<rparr>)],
             defaultBrowserSession = None,
             defaultSessionId = ''main'', activeSessionId = ''a_tzafonwright'',
             store = [], close_log = [], stderr = [] \<rparr>
   in map_of (browsers (snd (createNewBrowserSession ''a_tzafonwright'' config w))) ''a_tzafonwright''
        = Some \<lparr> bs_client = Some 1, bs_sessionId = ''a_tzafonwright'' \<rparr>
      \<and> isConnected (clients (snd (createNewBrowserSession ''a_tzafonwright'' config w)) 0)
      \<and> close_log (snd (createNewBrowserSession ''a_tzafonwright'' config w)) = []
      \<and> close_log (snd (createNewBrowserSession ''a_tzafonwright'' config
                          (cleanupSession ''a_tzafonwright'' w))) = [0]"
  unfolding Let_def
  using createNamed_replaces_without_closing
    [where ident = "''a_tzafonwright''" and r = 0
       and s = "\<lparr> bs_client = Some 1, bs_sessionId = ''a_tzafonwright'' \<rparr>"
       and old = "\<lparr> bs_client = Some 0, bs_sessionId = ''a_tzafonwright'' \<rparr>"
       and config = "\<lparr> proxyUrl = ''ws://proxy'', viewPort = None \<rparr>"
       and w = "\<lparr> clients = (\<lambda>a. \<lparr> ws = True, isConnected = True, wsUrl = ''ws://proxy'',
                                listeners = [], sent = [], ws_close_error = None \<rparr>),
             next_ref = 1,
             net = (\<lambda>a. \<lparr> on_connect = Opens None, latency = 5, close_error = None \<rparr>),
             browsers = [(''a_tzafonwright'', \<lparr> bs_client = Some 0, bs_sessionId = ''a_tzafonwright'' \<rparr>)],
             defaultBrowserSession = None,
             defaultSessionId = ''main'', activeSessionId = ''a_tzafonwright'',
             store = [], close_log = [], stderr = [] \<rparr>"]
  by (simp add: createNewBrowserSession_def createTzafonWrightClient_def connect_ref_def
      viewport_of_def new_client_def setActiveSessionId_def Let_def)

subsection \<open>Shutdown\<close>

text \<open>
  The shape of the store map: one entry per id, each filed under its own id. The
  operations that write the store keep it.
\<close>

lemma update_entries:
  "\<forall>(k, s)\<in>set al. P k s \<Longrightarrow> P i v \<Longrightarrow> \<forall>(k, s)\<in>set (AList.update i v al). P k s"
  by (induction al) auto

lemma delete_entries:
  "\<forall>(k, s)\<in>set al. P k s \<Longrightarrow> \<forall>(k, s)\<in>set (AList.delete i al). P k s"
  by (induction al) auto

lemma storeSession_keeps_shape:
  assumes "distinct (map fst (store w))" and "\<forall>(k, s)\<in>set (store w). tw_id s = k"
  shows "distinct (map fst (store (storeSession session w)))"
    and "\<forall>(k, s)\<in>set (store (storeSession session w)). tw_id s = k"
proof -
  show "distinct (map fst (store (storeSession session w)))"
    using assms(1) by (simp add: storeSession_def distinct_update)
  show "\<forall>(k, s)\<in>set (store (storeSession session w)). tw_id s = k"
    unfolding storeSession_def
    using update_entries [OF assms(2), where i = "tw_id session" and v = session]
    by simp
qed

lemma remove_keeps_shape:
  assumes "distinct (map fst (store w))" and "\<forall>(k, s)\<in>set (store w). tw_id s = k"
  shows "distinct (map fst (store (remove i w)))"
    and "\<forall>(k, s)\<in>set (store (remove i w)). tw_id s = k"
proof -
  have s: "store (remove i w) = store w \<or> store (remove i w) = AList.delete i (store w)"
    by (simp add: remove_def close_ref_def split: option.split prod.split outcome.split)
  have "distinct (map fst (AList.delete i (store w)))"
    using assms(1) by (rule distinct_delete)
  with s assms(1) show "distinct (map fst (store (remove i w)))"
    by (elim disjE) simp_all
  have "\<forall>(k, s)\<in>set (AList.delete i (store w)). tw_id s = k"
    using assms(2) by (rule delete_entries)
  with s assms(2) show "\<forall>(k, s)\<in>set (store (remove i w)). tw_id s = k"
    by (elim disjE) simp_all
qed

text \<open>Closing every session of the store.\<close>

lemma filter_delete:
  "filter (\<lambda>(k, v). k \<notin> S) (AList.delete i al) = filter (\<lambda>(k, v). k \<notin> insert i S) al"
  by (induction al) auto

lemma remove_present:
  assumes "map_of (store w) i = Some s"
  shows "store (remove i w) = AList.delete i (store w)"
    and "close_log (remove i w) = close_log w @ [tw_client s]"
    and "browsers (remove i w) = browsers w"
    and "defaultBrowserSession (remove i w) = defaultBrowserSession w"
    and "defaultSessionId (remove i w) = defaultSessionId w"
    and "activeSessionId (remove i w) = activeSessionId w"
  using assms
  by (simp_all add: remove_def close_ref_def split: prod.split outcome.split)

lemma foldl_remove:
  assumes "distinct (map tw_id xs)"
      and "\<forall>x\<in>set xs. map_of (store w) (tw_id x) = Some x"
  shows "close_log (foldl (\<lambda>acc s. remove (tw_id s) acc) w xs) = close_log w @ map tw_client xs
       \<and> store (foldl (\<lambda>acc s. remove (tw_id s) acc) w xs)
           = filter (\<lambda>(k, v). k \<notin> tw_id ` set xs) (store w)
       \<and> browsers (foldl (\<lambda>acc s. remove (tw_id s) acc) w xs) = browsers w
       \<and> defaultBrowserSession (foldl (\<lambda>acc s. remove (tw_id s) acc) w xs) = defaultBrowserSession w
       \<and> defaultSessionId (foldl (\<lambda>acc s. remove (tw_id s) acc) w xs) = defaultSessionId w
       \<and> activeSessionId (foldl (\<lambda>acc s. remove (tw_id s) acc) w xs) = activeSessionId w"
  using assms
proof (induction xs arbitrary: w)
  case Nil
  show ?case by simp
next
  case (Cons x xs)
  let ?w = "remove (tw_id x) w"
  from Cons.prems(2) have x: "map_of (store w) (tw_id x) = Some x" by simp
  note r = remove_present [OF x]
  have d: "distinct (map tw_id xs)" using Cons.prems(1) by simp
  have "\<forall>y\<in>set xs. map_of (store ?w) (tw_id y) = Some y"
  proof
    fix y assume y: "y \<in> set xs"
    from Cons.prems(1) have "tw_id x \<notin> tw_id ` set xs" by simp
    with y have "tw_id y \<noteq> tw_id x" by (metis imageI)
    moreover from y Cons.prems(2) have "map_of (store w) (tw_id y) = Some y" by simp
    ultimately show "map_of (store ?w) (tw_id y) = Some y" by (simp add: r(1))
  qed
  note IH = Cons.IH [OF d this]
  have step: "foldl (\<lambda>acc s. remove (tw_id s) acc) w (x # xs)
                = foldl (\<lambda>acc s. remove (tw_id s) acc) ?w xs"
    by simp
  have s: "filter (\<lambda>(k, v). k \<notin> tw_id ` set xs) (store ?w)
             = filter (\<lambda>(k, v). k \<notin> tw_id ` set (x # xs)) (store w)"
    unfolding r(1) filter_delete by simp
  show ?case
    unfolding step
    apply (intro conjI)
    subgoal using IH by (simp add: r(2))
    subgoal using IH s by simp
    subgoal using IH by (simp add: r(3))
    subgoal using IH by (simp add: r(4))
    subgoal using IH by (simp add: r(5))
    subgoal using IH by (simp add: r(6))
    done
qed

lemma removeAll_store_closes:
  assumes "distinct (map fst (store w))" and "\<forall>(k, s)\<in>set (store w). tw_id s = k"
  shows "close_log (removeAll_store w) = close_log w @ map (tw_client \<circ> snd) (store w)"
    and "store (removeAll_store w) = []"
    and "browsers (removeAll_store w) = browsers w"
    and "defaultSessionId (removeAll_store w) = defaultSessionId w"
proof -
  have ids: "map tw_id (map snd (store w)) = map fst (store w)"
    using assms(2) by (induction "store w") auto
  have 1: "distinct (map tw_id (map snd (store w)))"
    using assms(1) by (simp only: ids)
  have 2: "\<forall>x\<in>set (map snd (store w)). map_of (store w) (tw_id x) = Some x"
    using assms by (auto simp: case_prod_unfold)
  have 3: "filter (\<lambda>(k, v). k \<notin> tw_id ` set (map snd (store w))) (store w) = []"
    using assms(2) by (auto simp: filter_empty_conv case_prod_unfold image_iff)
  from foldl_remove [OF 1 2] 3
  show "close_log (removeAll_store w) = close_log w @ map (tw_client \<circ> snd) (store w)"
    and "store (removeAll_store w) = []"
    and "browsers (removeAll_store w) = browsers w"
    and "defaultSessionId (removeAll_store w) = defaultSessionId w"
    by (simp_all add: removeAll_store_def list_sessions_def)
qed

lemma foldl_closeBrowserGracefully:
  "close_log (foldl (\<lambda>acc (i, s). closeBrowserGracefully (Some s) i acc) w bs)
     = close_log w @ List.map_filter (bs_client \<circ> snd) bs
   \<and> store (foldl (\<lambda>acc (i, s). closeBrowserGracefully (Some s) i acc) w bs) = store w
   \<and> defaultSessionId (foldl (\<lambda>acc (i, s). closeBrowserGracefully (Some s) i acc) w bs)
       = defaultSessionId w"
  by (induction bs arbitrary: w)
    (simp_all add: map_filter_simps closeBrowserGracefully_close_log case_prod_unfold
      split: option.split)

lemma closeAllSessions_closes:
  "close_log (closeAllSessions w) = close_log w @ List.map_filter (bs_client \<circ> snd) (browsers w)"
  "browsers (closeAllSessions w) = []"
  "defaultBrowserSession (closeAllSessions w) = None"
  "activeSessionId (closeAllSessions w) = defaultSessionId w"
  "store (closeAllSessions w) = store w"
  using foldl_closeBrowserGracefully [of w "browsers w"]
  by (simp_all add: closeAllSessions_def Let_def)

text \<open>
  Claim C3. On a termination signal the exit handler calls \<open>close()\<close> on the Connection of
  every session that the store map and the registry map hold at that moment: the calls
  made during the handler are exactly the store's clients followed by the registry's
  clients, whichever of them throw, and both maps are empty afterwards. The two cleanups
  are started together, so neither waits for the other. The store map is assumed to be
  what \<open>store.set(session.id, session)\<close> builds: one entry per id, filed under its own id.
\<close>

theorem shutdown_closes_every_session:
  assumes "distinct (map fst (store w))" and "\<forall>(k, s)\<in>set (store w). tw_id s = k"
  shows "close_log (handleExit w)
           = close_log w @ map (tw_client \<circ> snd) (store w)
               @ List.map_filter (bs_client \<circ> snd) (browsers w)
       \<and> store (handleExit w) = []
       \<and> browsers (handleExit w) = []
       \<and> defaultBrowserSession (handleExit w) = None
       \<and> activeSessionId (handleExit w) = defaultSessionId w"
  using removeAll_store_closes [OF assms]
  by (simp add: handleExit_def serverList_closeAll_def closeAllSessions_closes)

theorem shutdown_closes_every_session_witness:
  "let w = \<lparr> clients = (\<lambda>a. \<lparr> ws = True, isConnected = True, wsUrl = ''ws://proxy'',
                                listeners = [], sent = [],
                                ws_close_error = (if a = 1 then Some ''boom'' else None) \<rparr>),
             next_ref = 3,
             net = (\<lambda>a. \<lparr> on_connect = Opens None, latency = 5, close_error = None \<rparr>),
             browsers = [(''main'', \<lparr> bs_client = Some 2, bs_sessionId = ''main'' \<rparr>)],
             defaultBrowserSession = Some \<lparr> bs_client = Some 2, bs_sessionId = ''main'' \<rparr>,
             defaultSessionId = ''main'', activeSessionId = ''main'',
             store = [(''s1'', \<lparr> tw_id = ''s1'', tw_client = 0, tw_created = 10, tw_name = Some ''session-1'' \<rparr>),
                      (''s2'', \<lparr> tw_id = ''s2'', tw_client = 1, tw_created = 11, tw_name = Some ''session-2'' \<rparr>)],
             close_log = [], stderr = [] \<rparr>
   in close_log (handleExit w) = [0, 1, 2]
      \<and> store (handleExit w) = []
      \<and> browsers (handleExit w) = []
      \<and> defaultBrowserSession (handleExit w) = None"
  unfolding Let_def
  using shutdown_closes_every_session
    [where w = "\<lparr> clients = (\<lambda>a. \<lparr> ws = True, isConnected = True, wsUrl = ''ws://proxy'',
                                listeners = [], sent = [],
                                ws_close_error = (if a = 1 then Some ''boom'' else None) \<rparr>),
             next_ref = 3,
             net = (\<lambda>a. \<lparr> on_connect = Opens None, latency = 5, close_error = None \<rparr>),
             browsers = [(''main'', \<lparr> bs_client = Some 2, bs_sessionId = ''main'' \<rparr>)],
             defaultBrowserSession = Some \<lparr> bs_client = Some 2, bs_sessionId = ''main'' \<rparr>,
             defaultSessionId = ''main'', activeSessionId = ''main'',
             store = [(''s1'', \<lparr> tw_id = ''s1'', tw_client = 0, tw_created = 10, tw_name = Some ''session-1'' \<rparr>),
                      (''s2'', \<lparr> tw_id = ''s2'', tw_client = 1, tw_created = 11, tw_name = Some ''session-2'' \<rparr>)],
             close_log = [], stderr = [] \<rparr>"]
  by (simp add: map_filter_simps)

section \<open>Properties of the bulk provisioner\<close>

subsection \<open>Arithmetic of the batches\<close>

lemma ceil_facts:
  fixes count b :: int
  assumes "0 < b"
  shows "count \<le> (- ((- count) div b)) * b" and "(- ((- count) div b) - 1) * b < count"
proof -
  let ?q = "(- count) div b"
  have q: "?q * b = - count - (- count) mod b"
    using div_mult_mod_eq [of "- count" b] by linarith
  have m0: "0 \<le> (- count) mod b" and mb: "(- count) mod b < b" using assms(1) by simp_all
  have "(- ?q) * b = - (?q * b)" by simp
  with q have t: "(- ?q) * b = count + (- count) mod b" by linarith
  then show "count \<le> (- ?q) * b" using m0 by linarith
  have "(- ?q - 1) * b = (- ?q) * b - b" by (simp add: algebra_simps)
  with t mb show "(- ?q - 1) * b < count" by linarith
qed

lemma ceil_pos:
  fixes count b :: int
  assumes "0 < b" and "1 \<le> count"
  shows "1 \<le> - ((- count) div b)"
proof -
  have "(- count) div b < 0" using assms by (simp add: div_neg_pos_less0)
  then show ?thesis by linarith
qed

text \<open>The size of batch \<open>k\<close>.\<close>

lemma batch_size_bounds:
  fixes count b k :: int
  assumes b: "0 < b" and k: "0 \<le> k" "k < - ((- count) div b)"
  shows "1 \<le> min (k * b + b) count - k * b" and "min (k * b + b) count - k * b \<le> b"
    and "k * b < count"
proof -
  let ?t = "- ((- count) div b)"
  from k have "k \<le> ?t - 1" by simp
  then have "k * b \<le> (?t - 1) * b" using b by (simp add: mult_right_mono)
  with ceil_facts(2) [OF b, of count] show kb: "k * b < count" by linarith
  then show "1 \<le> min (k * b + b) count - k * b" using b by (simp add: min_def)
  show "min (k * b + b) count - k * b \<le> b" by (simp add: min_def)
qed

lemma sum_batch_sizes_upto:
  fixes count b j :: int
  assumes b: "0 < b" and c: "0 \<le> count" and j: "- 1 \<le> j" "j < - ((- count) div b)"
  shows "sum_list (map (\<lambda>k. min (k * b + b) count - k * b) [0..j]) = min ((j + 1) * b) count"
  using j
proof (induction j rule: int_ge_induct)
  case base
  from c show ?case by simp
next
  case (step j)
  let ?sz = "\<lambda>k. min (k * b + b) count - k * b"
  from step.prems have j': "j < - ((- count) div b)" by simp
  have lt: "(j + 1) * b < count"
    using batch_size_bounds(3) [OF b, of "j + 1" count] step.hyps step.prems by simp
  have up: "[0..j + 1] = [0..j] @ [j + 1]"
    using step.hyps by (simp add: upto_rec2)
  have "sum_list (map ?sz [0..j + 1]) = sum_list (map ?sz [0..j]) + ?sz (j + 1)"
    unfolding up by simp
  also have "\<dots> = min ((j + 1) * b) count + ?sz (j + 1)"
    using step.IH [OF j'] by simp
  also have "\<dots> = min ((j + 1) * b + b) count"
    using lt by simp
  also have "(j + 1) * b + b = (j + 1 + 1) * b"
    by (simp add: algebra_simps)
  finally show ?case .
qed

text \<open>The list of batch sizes that a run with a positive batch size produces.\<close>

lemma batch_sizes_facts:
  fixes count b :: int
  assumes b: "1 \<le> b" and c: "1 \<le> count"
  defines "t \<equiv> - ((- count) div b)"
  defines "sizes \<equiv> map (\<lambda>k. min (k * b + b) count - k * b) [0..t - 1]"
  shows "int (length sizes) = t"
    and "t = \<lceil>(of_int count :: rat) / of_int b\<rceil>"
    and "\<forall>n\<in>set sizes. 1 \<le> n \<and> n \<le> b"
    and "sum_list sizes = count"
    and "[0 + 1..t] = [1..int (length sizes)]"
proof -
  have b0: "0 < b" using b by simp
  have t1: "1 \<le> t" unfolding t_def using ceil_pos [OF b0 c] .
  show len: "int (length sizes) = t" unfolding sizes_def using t1 by simp
  show "t = \<lceil>(of_int count :: rat) / of_int b\<rceil>"
    unfolding t_def by (simp only: ceiling_divide_eq_div)
  show "\<forall>n\<in>set sizes. 1 \<le> n \<and> n \<le> b"
  proof
    fix n assume "n \<in> set sizes"
    then obtain k where k: "0 \<le> k" "k \<le> t - 1" and n: "n = min (k * b + b) count - k * b"
      unfolding sizes_def by auto
    from k have "k < - ((- count) div b)" unfolding t_def by simp
    from batch_size_bounds(1,2) [OF b0 k(1) this] n show "1 \<le> n \<and> n \<le> b" by simp
  qed
  have "sum_list sizes = min ((t - 1 + 1) * b) count"
    unfolding sizes_def
    using sum_batch_sizes_upto [OF b0, of count "t - 1"] c t1 unfolding t_def by simp
  moreover have "count \<le> t * b" unfolding t_def using ceil_facts(1) [OF b0] .
  ultimately show "sum_list sizes = count" by simp
  show "[0 + 1..t] = [1..int (length sizes)]" using len by simp
qed


text \<open>Whole parts and ceilings of quotients of numerals, for evaluating runs.\<close>

lemma floor_rat_numeral_div [simp]:
  "\<lfloor>numeral a / numeral b :: rat\<rfloor> = numeral a div numeral b"
  using floor_divide_of_int_eq [of "numeral a" "numeral b", where ?'a = rat] by simp

lemma floor_rat_one_div [simp]:
  "\<lfloor>1 / numeral b :: rat\<rfloor> = 1 div numeral b"
  using floor_divide_of_int_eq [of 1 "numeral b", where ?'a = rat] by simp

lemma ceiling_rat_numeral_div [simp]:
  "\<lceil>numeral a / numeral b :: rat\<rceil> = - (- numeral a div numeral b)"
  using floor_divide_of_int_eq [of "- numeral a" "numeral b", where ?'a = rat]
  by (simp add: ceiling_def)

lemma decimal_places_numeral [simp]:
  "decimal_places (numeral k) f =
     (if f = 0 then []
      else digit_char (nat \<lfloor>f * 10\<rfloor>)
             # decimal_places (pred_numeral k) (f * 10 - of_int \<lfloor>f * 10\<rfloor>))"
  by (simp add: numeral_eq_Suc)

subsection \<open>One batch, and the loop over the batches\<close>

declare batch_loop.simps [simp del]

lemma announced_sizes_append:
  "announced_sizes (xs @ ys) = announced_sizes xs @ announced_sizes ys"
  by (induction xs rule: announced_sizes.induct) simp_all

lemma race_connect_frame:
  "stderr (snd (race_connect r t w)) = stderr w"
  "next_ref (snd (race_connect r t w)) = next_ref w"
  by (simp_all add: race_connect_def connect_ref_def Let_def split: connect_outcome.split)

lemma attempt_frame:
  "stderr (snd (attempt p s i w)) = stderr w"
  "next_ref (snd (attempt p s i w)) = Suc (next_ref w)"
proof -
  let ?w1 = "w\<lparr> clients := (clients w)(next_ref w :=
                 new_client (run_proxyUrl p) (close_error (net w (next_ref w)))),
               next_ref := Suc (next_ref w) \<rparr>"
  let ?R = "race_connect (next_ref w) (run_connectionTimeout p) ?w1"
  have a: "snd (attempt p s i w) = snd ?R"
    by (cases ?R) (simp add: attempt_def Let_def split: outcome.split)
  show "stderr (snd (attempt p s i w)) = stderr w"
    unfolding a by (simp add: race_connect_frame)
  show "next_ref (snd (attempt p s i w)) = Suc (next_ref w)"
    unfolding a by (simp add: race_connect_frame)
qed

lemma launch_Suc:
  "launch p s (Suc n) w =
     (fst (launch p s n w) @ [fst (attempt p s n (snd (launch p s n w)))],
      snd (attempt p s n (snd (launch p s n w))))"
  by (simp add: launch_def case_prod_unfold)

lemma launch_0: "launch p s 0 w = ([], w)"
  by (simp add: launch_def)

text \<open>A batch of \<open>n\<close> attempts builds \<open>n\<close> clients and yields \<open>n\<close> settled results.\<close>

lemma launch_frame:
  "length (fst (launch p s n w)) = n
   \<and> stderr (snd (launch p s n w)) = stderr w
   \<and> next_ref (snd (launch p s n w)) = next_ref w + n"
  by (induction n) (simp_all add: launch_0 launch_Suc attempt_frame)

text \<open>Each settled attempt adds one entry to exactly one of the two lists and one counter.\<close>

lemma tally_step:
  assumes "tally (res, a, b) r = (res', a', b')"
  shows "a' + b' = Suc (a + b)"
    and "length (successful res') + a = length (successful res) + a'"
    and "length (failed res') + b = length (failed res) + b'"
    and "batchResults res' = batchResults res"
  using assms
  by (cases r; auto split: option.splits if_splits)+

lemma foldl_tally:
  assumes "foldl tally (res, a, b) rs = (res', a', b')"
  shows "a' + b' = a + b + length rs
       \<and> length (successful res') + a = length (successful res) + a'
       \<and> length (failed res') + b = length (failed res) + b'
       \<and> batchResults res' = batchResults res"
  using assms
proof (induction rs arbitrary: res a b)
  case Nil
  then show ?case by simp
next
  case (Cons r rs)
  obtain res1 a1 b1 where t: "tally (res, a, b) r = (res1, a1, b1)"
    by (cases "tally (res, a, b) r") auto
  from Cons.prems have "foldl tally (res1, a1, b1) rs = (res', a', b')"
    by (simp add: t)
  from Cons.IH [OF this] tally_step [OF t] show ?case by simp
qed

text \<open>
  One pass of the loop, for any numbers: the batch announces \<open>batchCount\<close>, but launches,
  settles and accounts for \<open>array_length batchCount\<close> attempts.
\<close>

lemma run_batch_effect:
  fixes p k acc
  defines "sz \<equiv> min (of_int k * run_batchSize p + run_batchSize p) (run_count p)
                  - of_int k * run_batchSize p"
  shows "\<exists>s f. batchResults (fst (run_batch p k acc))
                 = batchResults (fst acc) @ [\<lparr> batchNumber = k + 1, br_successful = s, br_failed = f \<rparr>]
             \<and> s + f = array_length sz
             \<and> length (successful (fst (run_batch p k acc))) = length (successful (fst acc)) + s
             \<and> length (failed (fst (run_batch p k acc))) = length (failed (fst acc)) + f
             \<and> announced_sizes (stderr (snd (run_batch p k acc)))
                 = announced_sizes (stderr (snd acc)) @ [sz]
             \<and> next_ref (snd (run_batch p k acc)) = next_ref (snd acc) + array_length sz"
proof -
  let ?w1 = "(snd acc)\<lparr> stderr := stderr (snd acc) @
                  [Bulk_processing_batch (k + 1) (run_totalBatches p) sz] \<rparr>"
  let ?L = "launch p (of_int k * run_batchSize p) (array_length sz) ?w1"
  obtain rs w2 where L: "?L = (rs, w2)" by (cases ?L)
  obtain res2 s f where T: "foldl tally (fst acc, 0, 0) rs = (res2, s, f)"
    by (cases "foldl tally (fst acc, 0, 0) rs") auto
  from launch_frame [of p "of_int k * run_batchSize p" "array_length sz" ?w1] L
  have len: "length rs = array_length sz" and err: "stderr w2 = stderr ?w1"
    and nr: "next_ref w2 = next_ref (snd acc) + array_length sz"
    by simp_all
  from foldl_tally [OF T] len
  have t: "s + f = array_length sz" "length (successful res2) = length (successful (fst acc)) + s"
    "length (failed res2) = length (failed (fst acc)) + f"
    "batchResults res2 = batchResults (fst acc)"
    by simp_all
  have R: "run_batch p k acc =
             (res2\<lparr> batchResults := batchResults res2 @
                      [\<lparr> batchNumber = k + 1, br_successful = s, br_failed = f \<rparr>] \<rparr>,
              if k < run_totalBatches p - 1
              then w2\<lparr> stderr := stderr w2 @ [Bulk_waiting (run_batchDelay p)] \<rparr> else w2)"
    using L T by (simp add: run_batch_def Let_def sz_def)
  show ?thesis
    apply (rule exI [of _ s], rule exI [of _ f])
    unfolding R using t err nr
    by (simp add: announced_sizes_append)
qed

text \<open>
  What the loop does from batch \<open>i\<close> on, for any numbers. \<open>q\<close> says that the summaries so
  far add up to the two lists.
\<close>

lemma batch_loop_effect:
  assumes q: "sum_list (map br_successful (batchResults (fst acc))) = length (successful (fst acc))"
             "sum_list (map br_failed (batchResults (fst acc))) = length (failed (fst acc))"
  shows "announced_sizes (stderr (snd (batch_loop p i acc)))
           = announced_sizes (stderr (snd acc))
               @ map (\<lambda>k. min (of_int k * run_batchSize p + run_batchSize p) (run_count p)
                            - of_int k * run_batchSize p)
                   [i..run_totalBatches p - 1]
       \<and> accounted (fst (batch_loop p i acc))
           = accounted (fst acc)
               @ map (\<lambda>k. array_length (min (of_int k * run_batchSize p + run_batchSize p) (run_count p)
                                           - of_int k * run_batchSize p))
                   [i..run_totalBatches p - 1]
       \<and> map batchNumber (batchResults (fst (batch_loop p i acc)))
           = map batchNumber (batchResults (fst acc)) @ [i + 1..run_totalBatches p]
       \<and> sum_list (map br_successful (batchResults (fst (batch_loop p i acc))))
           = length (successful (fst (batch_loop p i acc)))
       \<and> sum_list (map br_failed (batchResults (fst (batch_loop p i acc))))
           = length (failed (fst (batch_loop p i acc)))
       \<and> next_ref (snd (batch_loop p i acc))
           = next_ref (snd acc)
               + sum_list (map (\<lambda>k. array_length (min (of_int k * run_batchSize p + run_batchSize p)
                                                        (run_count p) - of_int k * run_batchSize p))
                             [i..run_totalBatches p - 1])"
  using q
proof (induction p i acc rule: batch_loop.induct)
  case (1 p i acc)
  let ?sz = "\<lambda>k. min (of_int k * run_batchSize p + run_batchSize p) (run_count p)
                  - of_int k * run_batchSize p"
  let ?n = "\<lambda>k. array_length (?sz k)"
  let ?acc = "run_batch p i acc"
  {
    assume False: "\<not> i < run_totalBatches p"
    then have unf: "batch_loop p i acc = acc" by (subst batch_loop.simps) simp
    from False have e1: "[i..run_totalBatches p - 1] = []" and e2: "[i + 1..run_totalBatches p] = []"
      by simp_all
    note unf e1 e2
  }
  note stop = this
  {
    assume True: "i < run_totalBatches p"
    have unf: "batch_loop p i acc = batch_loop p (i + 1) ?acc"
      using True by (subst batch_loop.simps) simp
    from run_batch_effect [of p i acc] obtain s f where
      e: "batchResults (fst ?acc)
            = batchResults (fst acc) @ [\<lparr> batchNumber = i + 1, br_successful = s, br_failed = f \<rparr>]"
         "s + f = ?n i"
         "length (successful (fst ?acc)) = length (successful (fst acc)) + s"
         "length (failed (fst ?acc)) = length (failed (fst acc)) + f"
         "announced_sizes (stderr (snd ?acc)) = announced_sizes (stderr (snd acc)) @ [?sz i]"
         "next_ref (snd ?acc) = next_ref (snd acc) + ?n i"
      by blast
    have ac: "accounted (fst ?acc) = accounted (fst acc) @ [?n i]"
      using e(1,2) by (simp add: accounted_def)
    have q1: "sum_list (map br_successful (batchResults (fst ?acc))) = length (successful (fst ?acc))"
      and q2: "sum_list (map br_failed (batchResults (fst ?acc))) = length (failed (fst ?acc))"
      using "1.prems" e(1,3,4) by simp_all
    note IH0 = "1.IH" [OF True q1 q2]
    note IH = IH0 [THEN conjunct1] IH0 [THEN conjunct2, THEN conjunct1]
      IH0 [THEN conjunct2, THEN conjunct2, THEN conjunct1]
      IH0 [THEN conjunct2, THEN conjunct2, THEN conjunct2, THEN conjunct1]
      IH0 [THEN conjunct2, THEN conjunct2, THEN conjunct2, THEN conjunct2, THEN conjunct1]
      IH0 [THEN conjunct2, THEN conjunct2, THEN conjunct2, THEN conjunct2, THEN conjunct2]
    have up: "[i..run_totalBatches p - 1] = i # [i + 1..run_totalBatches p - 1]"
      using True by (simp add: upto_rec1)
    have up2: "[i + 1..run_totalBatches p] = (i + 1) # [i + 1 + 1..run_totalBatches p]"
      using True by (simp add: upto_rec1)
    have c1: "announced_sizes (stderr (snd (batch_loop p i acc)))
           = announced_sizes (stderr (snd acc)) @ map ?sz [i..run_totalBatches p - 1]"
      unfolding unf up IH(1) e(5) by simp
    have c2: "accounted (fst (batch_loop p i acc))
           = accounted (fst acc) @ map ?n [i..run_totalBatches p - 1]"
      unfolding unf up IH(2) ac by simp
    have c3: "map batchNumber (batchResults (fst (batch_loop p i acc)))
           = map batchNumber (batchResults (fst acc)) @ [i + 1..run_totalBatches p]"
      unfolding unf up2 IH(3) e(1) by simp
    have c4: "sum_list (map br_successful (batchResults (fst (batch_loop p i acc))))
           = length (successful (fst (batch_loop p i acc)))"
      unfolding unf by (rule IH(4))
    have c5: "sum_list (map br_failed (batchResults (fst (batch_loop p i acc))))
           = length (failed (fst (batch_loop p i acc)))"
      unfolding unf by (rule IH(5))
    have c6: "next_ref (snd (batch_loop p i acc))
           = next_ref (snd acc) + sum_list (map ?n [i..run_totalBatches p - 1])"
      unfolding unf up IH(6) e(6) by simp
    note c1 c2 c3 c4 c5 c6
  }
  note go = this
  show ?case
  proof (intro conjI)
    show "announced_sizes (stderr (snd (batch_loop p i acc)))
           = announced_sizes (stderr (snd acc)) @ map ?sz [i..run_totalBatches p - 1]"
      using stop go(1) by (cases "i < run_totalBatches p") simp_all
    show "accounted (fst (batch_loop p i acc))
           = accounted (fst acc) @ map ?n [i..run_totalBatches p - 1]"
      using stop go(2) by (cases "i < run_totalBatches p") simp_all
    show "map batchNumber (batchResults (fst (batch_loop p i acc)))
           = map batchNumber (batchResults (fst acc)) @ [i + 1..run_totalBatches p]"
      using stop go(3) by (cases "i < run_totalBatches p") simp_all
    show "sum_list (map br_successful (batchResults (fst (batch_loop p i acc))))
           = length (successful (fst (batch_loop p i acc)))"
      using stop(1) go(4) "1.prems"(1) by (cases "i < run_totalBatches p") simp_all
    show "sum_list (map br_failed (batchResults (fst (batch_loop p i acc))))
           = length (failed (fst (batch_loop p i acc)))"
      using stop(1) go(5) "1.prems"(2) by (cases "i < run_totalBatches p") simp_all
    show "next_ref (snd (batch_loop p i acc))
           = next_ref (snd acc) + sum_list (map ?n [i..run_totalBatches p - 1])"
      using stop go(6) by (cases "i < run_totalBatches p") simp_all
  qed
qed

subsection \<open>Runs on whole numbers\<close>

text \<open>
  When \<open>count\<close> and the batch size are whole numbers, so is every \<open>batchCount\<close>, and
  \<open>Array.from\<close> cuts nothing off.
\<close>

lemma array_length_of_int [simp]: "array_length (of_int n) = nat n"
  by (simp add: array_length_def)

lemma whole_batchCount:
  "min (of_int k * of_int b + of_int b) (of_int c) - of_int k * (of_int b :: rat)
     = of_int (min (k * b + b) c - k * b)"
proof -
  have "of_int k * of_int b + of_int b = (of_int (k * b + b) :: rat)" by simp
  then show ?thesis by (simp only: of_int_min of_int_diff of_int_mult)
qed

lemma sum_list_nat_int:
  assumes "\<forall>n\<in>set xs. (0::int) \<le> n"
  shows "int (sum_list (map nat xs)) = sum_list xs"
  using assms by (induction xs) simp_all

lemma sum_list_accounted:
  "sum_list (accounted res)
     = sum_list (map br_successful (batchResults res)) + sum_list (map br_failed (batchResults res))"
  unfolding accounted_def by (induction "batchResults res" arbitrary: res) (simp_all add: sum_list_addf)

text \<open>A run with a non-zero batch size is the loop started at batch 0 with empty results.\<close>

lemma createBulkSessions_run:
  assumes b: "b \<noteq> 0"
      and o: "opt_batchSize options = Some b \<or> opt_batchSize options = None \<and> b = min 5 count"
  obtains p where
    "createBulkSessions url count namePrefix options stamp print w
       = (Returns (fst (batch_loop p 0 (\<lparr> successful = [], failed = [], batchResults = [] \<rparr>, w))),
          snd (batch_loop p 0 (\<lparr> successful = [], failed = [], batchResults = [] \<rparr>, w)))"
    "run_batchSize p = b" "run_count p = count"
    "run_totalBatches p = \<lceil>count / b\<rceil>"
proof -
  let ?p = "\<lparr> run_proxyUrl = url, run_count = count,
              run_namePrefix = (case namePrefix of None \<Rightarrow> ''session'' | Some n \<Rightarrow> n),
              run_batchSize = b,
              run_batchDelay = (case opt_batchDelay options of None \<Rightarrow> 2000 | Some d \<Rightarrow> d),
              run_connectionTimeout = (case opt_connectionTimeout options of None \<Rightarrow> 10000 | Some t \<Rightarrow> t),
              run_totalBatches = \<lceil>count / b\<rceil>, run_stamp = stamp, run_print = print \<rparr>"
  have bs: "(case opt_batchSize options of None \<Rightarrow> min 5 count | Some b \<Rightarrow> b) = b"
    using o by auto
  have cd: "ceil_div count b = Num \<lceil>count / b\<rceil>"
    using b by (simp add: ceil_div_def)
  show ?thesis
    by (rule that [of ?p]) (simp_all add: createBulkSessions_def Let_def bs cd case_prod_unfold)
qed

text \<open>
  For whole numbers \<open>count \<ge> 1\<close> and \<open>b \<ge> 1\<close> (\<open>b\<close> given, or by default \<open>min(5, count)\<close>) a
  run returns after \<open>ceil(count / b)\<close> batches, numbered from 1 in order. The batch
  announces, launches and accounts for the same number of attempts, between 1 and \<open>b\<close>;
  these numbers add up to \<open>count\<close>, as do the lengths of the two lists and the number of
  clients built.
\<close>

lemma bulk_whole_numbers:
  assumes c: "1 \<le> count" and b: "1 \<le> b"
      and o: "opt_batchSize options = Some (of_int b)
              \<or> opt_batchSize options = None \<and> b = min 5 count"
  shows "\<exists>res w' sizes.
      createBulkSessions url (of_int count) namePrefix options stamp print w = (Returns res, w')
      \<and> announced_sizes (stderr w') = announced_sizes (stderr w) @ map of_int sizes
      \<and> map int (accounted res) = sizes
      \<and> int (length sizes) = \<lceil>(of_int count :: rat) / of_int b\<rceil>
      \<and> (\<forall>n\<in>set sizes. 1 \<le> n \<and> n \<le> b)
      \<and> sum_list sizes = count
      \<and> map batchNumber (batchResults res) = [1..int (length sizes)]
      \<and> sum_list (map br_successful (batchResults res)) = length (successful res)
      \<and> sum_list (map br_failed (batchResults res)) = length (failed res)
      \<and> int (length (successful res) + length (failed res)) = count
      \<and> int (next_ref w') = int (next_ref w) + count"
proof -
  let ?t = "- ((- count) div b)"
  let ?szi = "\<lambda>k. min (k * b + b) count - k * b"
  let ?sizes = "map ?szi [0..?t - 1]"
  let ?acc = "(\<lparr> successful = [], failed = [], batchResults = [] \<rparr>, w)"
  have b0: "(of_int b :: rat) \<noteq> 0" using b by simp
  have o': "opt_batchSize options = Some (of_int b)
            \<or> opt_batchSize options = None \<and> (of_int b :: rat) = min 5 (of_int count)"
    using o by (auto simp: min_def)
  from b0 o' obtain p where p:
    "createBulkSessions url (of_int count) namePrefix options stamp print w
       = (Returns (fst (batch_loop p 0 ?acc)), snd (batch_loop p 0 ?acc))"
    "run_batchSize p = of_int b" "run_count p = of_int count"
    "run_totalBatches p = \<lceil>(of_int count :: rat) / of_int b\<rceil>"
    by (rule createBulkSessions_run)
  have t: "run_totalBatches p = ?t"
    unfolding p(4) by (simp only: ceiling_divide_eq_div)
  note f = batch_sizes_facts [OF b c]
  have pos: "\<forall>n\<in>set ?sizes. 0 \<le> n" using f(3) by auto
  have sz: "\<And>k. min (of_int k * run_batchSize p + run_batchSize p) (run_count p)
                  - of_int k * run_batchSize p = of_int (?szi k)"
    unfolding p(2,3) by (rule whole_batchCount)
  have q: "sum_list (map br_successful (batchResults (fst ?acc))) = length (successful (fst ?acc))"
          "sum_list (map br_failed (batchResults (fst ?acc))) = length (failed (fst ?acc))"
    by simp_all
  note E0 = batch_loop_effect [where p = p and i = 0 and acc = ?acc, OF q, unfolded sz t]
  have m1: "map (\<lambda>k. rat_of_int (?szi k)) [0..?t - 1] = map of_int ?sizes"
    by (simp only: map_map comp_def)
  have m2: "map (\<lambda>k. array_length (rat_of_int (?szi k))) [0..?t - 1] = map nat ?sizes"
    by (simp only: map_map comp_def array_length_of_int)
  have e0: "announced_sizes (stderr (snd ?acc)) = announced_sizes (stderr w)"
    "accounted (fst ?acc) = []" "map batchNumber (batchResults (fst ?acc)) = []"
    "next_ref (snd ?acc) = next_ref w"
    by (simp_all add: accounted_def)
  note E1 = E0 [unfolded m1 m2 e0 append_Nil]
  note E = E1 [THEN conjunct1] E1 [THEN conjunct2, THEN conjunct1]
      E1 [THEN conjunct2, THEN conjunct2, THEN conjunct1]
      E1 [THEN conjunct2, THEN conjunct2, THEN conjunct2, THEN conjunct1]
      E1 [THEN conjunct2, THEN conjunct2, THEN conjunct2, THEN conjunct2, THEN conjunct1]
      E1 [THEN conjunct2, THEN conjunct2, THEN conjunct2, THEN conjunct2, THEN conjunct2]
  have a: "map int (accounted (fst (batch_loop p 0 ?acc))) = ?sizes"
    unfolding E(2) using pos by (simp add: comp_def)
  have n: "[0 + 1..?t] = [1..int (length ?sizes)]"
    by (rule f(5))
  have l: "int (length ?sizes) = \<lceil>(of_int count :: rat) / of_int b\<rceil>"
    unfolding f(1) by (rule f(2))
  have s: "int (sum_list (map nat ?sizes)) = count"
    unfolding sum_list_nat_int [OF pos] by (rule f(4))
  have "length (successful (fst (batch_loop p 0 ?acc))) + length (failed (fst (batch_loop p 0 ?acc)))
          = sum_list (accounted (fst (batch_loop p 0 ?acc)))"
    unfolding sum_list_accounted E(4) E(5) ..
  then have tot: "int (length (successful (fst (batch_loop p 0 ?acc)))
                     + length (failed (fst (batch_loop p 0 ?acc)))) = count"
    unfolding E(2) using s by simp
  have nr: "int (next_ref (snd (batch_loop p 0 ?acc))) = int (next_ref w) + count"
    unfolding E(6) using s by simp
  show ?thesis
    apply (rule exI [of _ "fst (batch_loop p 0 ?acc)"])
    apply (rule exI [of _ "snd (batch_loop p 0 ?acc)"])
    apply (rule exI [of _ ?sizes])
    apply (intro conjI)
    subgoal by (rule p(1))
    subgoal by (rule E(1))
    subgoal by (rule a)
    subgoal by (rule l)
    subgoal by (rule f(3))
    subgoal by (rule f(4))
    subgoal unfolding E(3) by (rule n)
    subgoal by (rule E(4))
    subgoal by (rule E(5))
    subgoal by (rule tot)
    subgoal by (rule nr)
    done
qed

text \<open>The rules that evaluate a run on given numbers.\<close>

lemmas bulk_eval = createBulkSessions_def ceil_div_def batch_loop.simps run_batch_def launch_def
  array_length_def attempt_def race_connect_def connect_ref_def new_client_def Let_def upt_rec
  accounted_def

text \<open>
  The run of the specification's example: 13 sessions in batches of 5, where the fourth and
  the eighth attempt time out. Eleven sessions succeed, two fail, and the three batch
  summaries add up to these totals.
\<close>

lemma bulk_two_timeouts_example:
  "(case createBulkSessions ''ws://proxy'' 13 None
          \<lparr> opt_batchSize = Some 5, opt_batchDelay = None, opt_connectionTimeout = None \<rparr>
          (\<lambda>r. ''1700000000000-k3j9x2a'') print_number
          \<lparr> clients = (\<lambda>a. new_client [] None), next_ref = 0,
            net = (\<lambda>a. \<lparr> on_connect = (if a = 3 \<or> a = 7 then Silent else Opens None),
                           latency = 5, close_error = None \<rparr>),
            browsers = [], defaultBrowserSession = None,
            defaultSessionId = ''main'', activeSessionId = ''main'',
            store = [], close_log = [], stderr = [] \<rparr> of
     (Returns res, w') \<Rightarrow>
        Some (length (successful res), failed res, batchResults res, announced_sizes (stderr w'))
   | _ \<Rightarrow> None)
   = Some (11,
           [\<lparr> fl_error = ''Connection timeout'', fl_name = ''session-4'' \<rparr>,
            \<lparr> fl_error = ''Connection timeout'', fl_name = ''session-8'' \<rparr>],
           [\<lparr> batchNumber = 1, br_successful = 4, br_failed = 1 \<rparr>,
            \<lparr> batchNumber = 2, br_successful = 4, br_failed = 1 \<rparr>,
            \<lparr> batchNumber = 3, br_successful = 3, br_failed = 0 \<rparr>],
           [5, 5, 3])"
  by (simp add: bulk_eval print_number_def digit_char_def)

subsection \<open>The batches of a run with a fractional batch size\<close>

text \<open>
  Claim C6. The batches of a run do not always add up to \<open>count\<close>. The tool passes on any
  number between 1 and 10 as batch size. For \<open>count = 13\<close> and a batch size of 2.5 the run
  goes through \<open>ceil(13 / 2.5) = 6\<close> batches, numbered 1 to 6. It announces them with 2.5
  sessions five times and 0.5 sessions once, but \<open>Array.from\<close> cuts each of these lengths
  down to a whole number while the start index advances by 2.5: the batches launch and
  account for 2, 2, 2, 2, 2 and 0 attempts. These add up to 10, ten clients are built, and
  three of the 13 sessions are never attempted.
\<close>

theorem bulk_fractional_batches:
  "(case createBulkSessions ''ws://proxy'' 13 None
          \<lparr> opt_batchSize = Some (5 / 2), opt_batchDelay = None, opt_connectionTimeout = None \<rparr>
          (\<lambda>r. ''1700000000000-k3j9x2a'') print_number
          \<lparr> clients = (\<lambda>a. new_client [] None), next_ref = 0,
            net = (\<lambda>a. \<lparr> on_connect = Opens None, latency = 5, close_error = None \<rparr>),
            browsers = [], defaultBrowserSession = None,
            defaultSessionId = ''main'', activeSessionId = ''main'',
            store = [], close_log = [], stderr = [] \<rparr> of
     (Returns res, w') \<Rightarrow>
        Some (map batchNumber (batchResults res), announced_sizes (stderr w'),
              accounted res, sum_list (accounted res), next_ref w')
   | _ \<Rightarrow> None)
   = Some ([1, 2, 3, 4, 5, 6], [5 / 2, 5 / 2, 5 / 2, 5 / 2, 5 / 2, 1 / 2],
           [2, 2, 2, 2, 2, 0], 10, 10)"
  by (simp add: bulk_eval)

subsection \<open>Accounting with a fractional batch size\<close>

text \<open>
  Claim C7. The two lists that a run returns do not always have \<open>count\<close> entries together.
  For \<open>count = 13\<close> and a batch size of 2.5, with the fourth attempt timing out, every
  attempt that is made is accounted for once (in each batch summary the two counts add
  up to the attempts of the batch, and the summaries add up to the lengths of the lists),
  but only ten attempts are made: nine successes and one failure are returned, under the
  names that the fractional start indices give, and no entry of either list stands for the
  other three of the 13 sessions.
\<close>

theorem bulk_fractional_accounting:
  "(case createBulkSessions ''ws://proxy'' 13 None
          \<lparr> opt_batchSize = Some (5 / 2), opt_batchDelay = None, opt_connectionTimeout = None \<rparr>
          (\<lambda>r. ''1700000000000-k3j9x2a'') print_number
          \<lparr> clients = (\<lambda>a. new_client [] None), next_ref = 0,
            net = (\<lambda>a. \<lparr> on_connect = (if a = 3 then Silent else Opens None),
                           latency = 5, close_error = None \<rparr>),
            browsers = [], defaultBrowserSession = None,
            defaultSessionId = ''main'', activeSessionId = ''main'',
            store = [], close_log = [], stderr = [] \<rparr> of
     (Returns res, w') \<Rightarrow>
        Some (map ok_name (successful res), failed res,
              map (\<lambda>r. (br_successful r, br_failed r)) (batchResults res),
              length (successful res) + length (failed res))
   | _ \<Rightarrow> None)
   = Some ([''session-1'', ''session-2'', ''session-3.5'', ''session-6'', ''session-7'',
            ''session-8.5'', ''session-9.5'', ''session-11'', ''session-12''],
           [\<lparr> fl_error = ''Connection timeout'', fl_name = ''session-4.5'' \<rparr>],
           [(2, 0), (1, 1), (2, 0), (2, 0), (2, 0), (0, 0)],
           10)"
  by (simp add: bulk_eval print_number_def digit_char_def)

end
